theory Spec2Isabelle
  imports Main
begin

section \<open>Python values\<close>

text \<open>
  A Python \<open>str\<close> is a sequence of Unicode code points, and \<open>len\<close>, indexing, slicing and
  the \<open>re\<close> module all count code points. The manuscripts and glossaries of this pipeline are
  Korean, Japanese and Chinese text, so a string is modelled as the list of its code points.
\<close>

type_synonym ustr = "nat list"

datatype py_error = KeyError | ValueError | IndexError | TypeError | ReError

text \<open>\<open>d.get(k, default)\<close> on a key that may be missing.\<close>

fun the_default :: "'a \<Rightarrow> 'a option \<Rightarrow> 'a" where
  "the_default d None = d"
| "the_default d (Some x) = x"

text \<open>
  A Python dict keeps its keys in insertion order, and an assignment to a present key
  keeps the key's place: an association list with update in place.
\<close>

fun dict_set :: "'k \<Rightarrow> 'v \<Rightarrow> ('k \<times> 'v) list \<Rightarrow> ('k \<times> 'v) list" where
  "dict_set k v [] = [(k, v)]"
| "dict_set k v (p # ps) = (if fst p = k then (k, v) # ps else p # dict_set k v ps)"

subsection \<open>Character classes\<close>

text \<open>
  \<open>str.isspace\<close>, \<open>str.strip\<close>, \<open>str.split()\<close> and the regular expression class
  \<open>\s\<close> share one set of white-space code points.
\<close>

definition isspace :: "nat \<Rightarrow> bool" where
  "isspace c =
     ((0x9 \<le> c \<and> c \<le> 0xD) \<or> (0x1C \<le> c \<and> c \<le> 0x20) \<or> c = 0x85 \<or> c = 0xA0 \<or>
      c = 0x1680 \<or> (0x2000 \<le> c \<and> c \<le> 0x200A) \<or> c = 0x2028 \<or> c = 0x2029 \<or>
      c = 0x202F \<or> c = 0x205F \<or> c = 0x3000)"

text \<open>
  The class \<open>\d\<close> of a \<open>str\<close> pattern is the Unicode category Nd, which \<open>int\<close>
  parses as well. The category consists of runs of ten consecutive code points, each run
  in the order of the digit values; \<open>nd_zeros\<close> lists the zero of every run (Unicode 14,
  the table of CPython 3.11).
\<close>

definition nd_zeros :: "nat list" where
  "nd_zeros =
     [0x30, 0x660, 0x6F0, 0x7C0, 0x966, 0x9E6, 0xA66, 0xAE6, 0xB66, 0xBE6, 0xC66, 0xCE6,
      0xD66, 0xDE6, 0xE50, 0xED0, 0xF20, 0x1040, 0x1090, 0x17E0, 0x1810, 0x1946, 0x19D0,
      0x1A80, 0x1A90, 0x1B50, 0x1BB0, 0x1C40, 0x1C50, 0xA620, 0xA8D0, 0xA900, 0xA9D0,
      0xA9F0, 0xAA50, 0xABF0, 0xFF10, 0x104A0, 0x10D30, 0x11066, 0x110F0, 0x11136,
      0x111D0, 0x112F0, 0x11450, 0x114D0, 0x11650, 0x116C0, 0x11730, 0x118E0, 0x11950,
      0x11C50, 0x11D50, 0x11DA0, 0x16A60, 0x16AC0, 0x16B50, 0x1D7CE, 0x1D7D8, 0x1D7E2,
      0x1D7EC, 0x1D7F6, 0x1E140, 0x1E2F0, 0x1E950, 0x1FBF0]"

definition isdecimal :: "nat \<Rightarrow> bool" where
  "isdecimal c = list_ex (\<lambda>z. z \<le> c \<and> c < z + 10) nd_zeros"

definition decimal_value :: "nat \<Rightarrow> nat" where
  "decimal_value c = (case filter (\<lambda>z. z \<le> c \<and> c < z + 10) nd_zeros of [] \<Rightarrow> 0 | z # zs \<Rightarrow> c - z)"

text \<open>The value of a string of decimal digits (what a group \<open>(\d+)\<close> captures).\<close>

definition decimal_number :: "ustr \<Rightarrow> nat" where
  "decimal_number s = foldl (\<lambda>n c. 10 * n + decimal_value c) 0 s"

subsection \<open>String methods\<close>

definition strip :: "ustr \<Rightarrow> ustr" where
  "strip s = rev (dropWhile isspace (rev (dropWhile isspace s)))"

text \<open>
  \<open>int(s)\<close>: white space around the number is ignored, a sign may come first, and single
  underscores may separate digits; anything else raises \<open>ValueError\<close>.
\<close>

fun int_body :: "bool \<Rightarrow> ustr \<Rightarrow> bool" where
  "int_body prev [] = prev"
| "int_body prev (c # cs) =
     (if isdecimal c then int_body True cs
      else if c = 0x5F \<and> prev then int_body False cs
      else False)"

definition int_digits :: "ustr \<Rightarrow> py_error + int" where
  "int_digits s =
     (if int_body False s then Inr (int (decimal_number (filter (\<lambda>c. c \<noteq> 0x5F) s)))
      else Inl ValueError)"

definition py_int :: "ustr \<Rightarrow> py_error + int" where
  "py_int s =
     (case strip s of
        [] \<Rightarrow> Inl ValueError
      | c # cs \<Rightarrow>
          if c = 0x2B then int_digits cs
          else if c = 0x2D then (case int_digits cs of Inl e \<Rightarrow> Inl e | Inr n \<Rightarrow> Inr (- n))
          else int_digits (c # cs))"

definition rstrip :: "ustr \<Rightarrow> ustr" where
  "rstrip s = rev (dropWhile isspace (rev s))"

text \<open>\<open>s.lstrip(BOM)\<close> for the byte order mark U+FEFF: the marks removed from the left.\<close>

definition lstrip_bom :: "ustr \<Rightarrow> ustr" where
  "lstrip_bom s = dropWhile (\<lambda>c. c = 0xFEFF) s"

definition startswith :: "ustr \<Rightarrow> ustr \<Rightarrow> bool" where
  "startswith sub s = (take (length sub) s = sub)"

text \<open>\<open>sub in s\<close>.\<close>

fun py_in :: "ustr \<Rightarrow> ustr \<Rightarrow> bool" where
  "py_in sub [] = (sub = [])"
| "py_in sub (c # cs) = (startswith sub (c # cs) \<or> py_in sub cs)"

text \<open>\<open>s.find(sub)\<close>, with \<open>None\<close> for Python's \<open>-1\<close>; the index counts from \<open>i\<close>.\<close>

fun find_from :: "ustr \<Rightarrow> ustr \<Rightarrow> nat \<Rightarrow> nat option" where
  "find_from sub [] i = (if sub = [] then Some i else None)"
| "find_from sub (c # cs) i =
     (if startswith sub (c # cs) then Some i else find_from sub cs (i + 1))"

definition py_find :: "ustr \<Rightarrow> ustr \<Rightarrow> nat option" where
  "py_find sub s = find_from sub s 0"

text \<open>
  \<open>s.replace(old, new)\<close> replaces the occurrences of \<open>old\<close> from the left, without
  overlap; the counter \<open>k\<close> skips the rest of an occurrence just replaced. An empty
  \<open>old\<close> occurs before every character and at the end.
\<close>

fun replace_from :: "ustr \<Rightarrow> ustr \<Rightarrow> nat \<Rightarrow> ustr \<Rightarrow> ustr" where
  "replace_from old new k [] = []"
| "replace_from old new k (c # cs) =
     (if 0 < k then replace_from old new (k - 1) cs
      else if startswith old (c # cs) then new @ replace_from old new (length old - 1) cs
      else c # replace_from old new 0 cs)"

definition py_replace :: "ustr \<Rightarrow> ustr \<Rightarrow> ustr \<Rightarrow> ustr" where
  "py_replace old new s =
     (if old = [] then new @ concat (map (\<lambda>c. c # new) s) else replace_from old new 0 s)"

text \<open>\<open>s.replace(old, new, 1)\<close>: the first occurrence only.\<close>

definition py_replace1 :: "ustr \<Rightarrow> ustr \<Rightarrow> ustr \<Rightarrow> ustr" where
  "py_replace1 old new s =
     (case py_find old s of
        None \<Rightarrow> s
      | Some i \<Rightarrow> take i s @ new @ drop (i + length old) s)"

text \<open>\<open>s[a:b]\<close> for \<open>0 \<le> a\<close> and \<open>0 \<le> b\<close>.\<close>

definition slice :: "ustr \<Rightarrow> nat \<Rightarrow> nat \<Rightarrow> ustr" where
  "slice s a b = take (b - a) (drop a s)"

text \<open>\<open>s.split(sep)\<close> for a non-empty separator, and \<open>s.split(sep, 1)\<close>.\<close>

fun split_from :: "ustr \<Rightarrow> nat \<Rightarrow> ustr \<Rightarrow> ustr \<Rightarrow> ustr list" where
  "split_from sep k cur [] = [cur]"
| "split_from sep k cur (c # cs) =
     (if 0 < k then split_from sep (k - 1) cur cs
      else if startswith sep (c # cs) then cur # split_from sep (length sep - 1) [] cs
      else split_from sep 0 (cur @ [c]) cs)"

definition py_split :: "ustr \<Rightarrow> ustr \<Rightarrow> ustr list" where
  "py_split sep s = split_from sep 0 [] s"

definition py_split1 :: "ustr \<Rightarrow> ustr \<Rightarrow> ustr list" where
  "py_split1 sep s =
     (case py_find sep s of
        None \<Rightarrow> [s]
      | Some i \<Rightarrow> [take i s, drop (i + length sep) s])"

text \<open>\<open>s.split()\<close>: the maximal runs of non-white-space characters.\<close>

fun split_ws_from :: "ustr \<Rightarrow> ustr \<Rightarrow> ustr list" where
  "split_ws_from cur [] = (if cur = [] then [] else [cur])"
| "split_ws_from cur (c # cs) =
     (if isspace c then (if cur = [] then split_ws_from [] cs else cur # split_ws_from [] cs)
      else split_ws_from (cur @ [c]) cs)"

definition py_split_ws :: "ustr \<Rightarrow> ustr list" where
  "py_split_ws s = split_ws_from [] s"

text \<open>\<open>text.split('\n')\<close> and \<open>'\n'.join(lines)\<close>.\<close>

definition split_lines :: "ustr \<Rightarrow> ustr list" where
  "split_lines s = py_split [0xA] s"

fun join_lines :: "ustr list \<Rightarrow> ustr" where
  "join_lines [] = []"
| "join_lines [l] = l"
| "join_lines (l # m # ls) = l @ [0xA] @ join_lines (m # ls)"

subsection \<open>Regular expressions\<close>

text \<open>
  The expressions of this repository are built from literals, character classes, greedy
  repetition of a class (\<open>\d+\<close>, \<open>\s*\<close>, \<open>.+\<close>, \<open>\d{3}\<close>), sequence, an optional
  non-capturing group, one capturing group and the anchors \<open>^\<close> and \<open>$\<close>. \<open>Rep n p\<close> is
  \<open>n\<close> or more characters of class \<open>p\<close>, as many as possible first.

  \<open>rxm r s (i, g)\<close> lists the ways \<open>r\<close> matches \<open>s\<close> from position \<open>i\<close>, each as the end
  position with the span of group 1, in the order in which the backtracking matcher of
  \<open>re\<close> tries them; the match it reports is the first. \<open>$\<close> (no flag) matches at the end
  and before a final newline, \<open>^\<close> at position 0.
\<close>

datatype rx =
    Eps
  | Bol
  | Eol
  | Cls "nat \<Rightarrow> bool"
  | Rep nat "nat \<Rightarrow> bool"
  | Seq rx rx
  | Alt rx rx
  | Grp rx

type_synonym mstate = "nat \<times> (nat \<times> nat) option"

text \<open>\<open>count_down lo k\<close> is \<open>k, k - 1, ..., lo\<close> (empty when \<open>k < lo\<close>).\<close>

fun count_down :: "nat \<Rightarrow> nat \<Rightarrow> nat list" where
  "count_down lo 0 = (if lo = 0 then [0] else [])"
| "count_down lo (Suc k) = (if lo \<le> Suc k then Suc k # count_down lo k else [])"

fun rxm :: "rx \<Rightarrow> ustr \<Rightarrow> mstate \<Rightarrow> mstate list" where
  "rxm Eps s (i, g) = [(i, g)]"
| "rxm Bol s (i, g) = (if i = 0 then [(i, g)] else [])"
| "rxm Eol s (i, g) =
     (if i = length s \<or> (i + 1 = length s \<and> s ! i = 0xA) then [(i, g)] else [])"
| "rxm (Cls p) s (i, g) = (if i < length s \<and> p (s ! i) then [(i + 1, g)] else [])"
| "rxm (Rep n p) s (i, g) =
     map (\<lambda>k. (i + k, g)) (count_down n (length (takeWhile p (drop i s))))"
| "rxm (Seq a b) s (i, g) = concat (map (rxm b s) (rxm a s (i, g)))"
| "rxm (Alt a b) s (i, g) = rxm a s (i, g) @ rxm b s (i, g)"
| "rxm (Grp a) s (i, g) = map (\<lambda>m. (fst m, Some (i, fst m))) (rxm a s (i, g))"

definition Chr :: "nat \<Rightarrow> rx" where
  "Chr c = Cls (\<lambda>x. x = c)"

definition seqs :: "rx list \<Rightarrow> rx" where
  "seqs rs = foldr Seq rs Eps"

definition lit :: "ustr \<Rightarrow> rx" where
  "lit s = seqs (map Chr s)"

definition Opt :: "rx \<Rightarrow> rx" where
  "Opt r = Alt r Eps"

text \<open>
  Group 1 of a match: the expression may have no group (\<open>match.group(1)\<close> raises
  \<open>IndexError\<close>), the group may have taken no part in the match (\<open>None\<close>), or it has
  a span.
\<close>

datatype group_result = NoSuchGroup | Unmatched | Span nat nat

fun has_group :: "rx \<Rightarrow> bool" where
  "has_group (Grp a) = True"
| "has_group (Seq a b) = (has_group a \<or> has_group b)"
| "has_group (Alt a b) = (has_group a \<or> has_group b)"
| "has_group Eps = False"
| "has_group Bol = False"
| "has_group Eol = False"
| "has_group (Cls p) = False"
| "has_group (Rep n p) = False"

record rmatch =
  m_start :: nat
  m_end :: nat
  m_group1 :: group_result

definition match_at :: "rx \<Rightarrow> ustr \<Rightarrow> nat \<Rightarrow> rmatch option" where
  "match_at r s i =
     (case rxm r s (i, None) of
        [] \<Rightarrow> None
      | m # ms \<Rightarrow>
          Some \<lparr>m_start = i, m_end = fst m,
                m_group1 = (if has_group r
                            then (case snd m of None \<Rightarrow> Unmatched | Some (a, b) \<Rightarrow> Span a b)
                            else NoSuchGroup)\<rparr>)"

text \<open>\<open>re.match\<close>, \<open>re.search\<close> (the leftmost start that matches) and \<open>match.group\<close>.\<close>

definition re_match :: "rx \<Rightarrow> ustr \<Rightarrow> rmatch option" where
  "re_match r s = match_at r s 0"

fun search_from :: "rx \<Rightarrow> ustr \<Rightarrow> nat \<Rightarrow> ustr \<Rightarrow> rmatch option" where
  "search_from r s i [] = match_at r s i"
| "search_from r s i (c # cs) =
     (case match_at r s i of None \<Rightarrow> search_from r s (i + 1) cs | Some m \<Rightarrow> Some m)"

definition re_search :: "rx \<Rightarrow> ustr \<Rightarrow> rmatch option" where
  "re_search r s = search_from r s 0 s"

definition group0 :: "ustr \<Rightarrow> rmatch \<Rightarrow> ustr" where
  "group0 s m = slice s (m_start m) (m_end m)"

definition group1 :: "ustr \<Rightarrow> rmatch \<Rightarrow> py_error + ustr option" where
  "group1 s m =
     (case m_group1 m of
        NoSuchGroup \<Rightarrow> Inl IndexError
      | Unmatched \<Rightarrow> Inr None
      | Span a b \<Rightarrow> Inr (Some (slice s a b)))"

text \<open>
  \<open>re.findall\<close> for an expression with one group that takes part in every match: the
  text of the group in each match.
\<close>

definition group1_text :: "ustr \<Rightarrow> rmatch \<Rightarrow> ustr" where
  "group1_text s m = (case m_group1 m of Span a b \<Rightarrow> slice s a b | _ \<Rightarrow> [])"

text \<open>
  \<open>re.finditer\<close>: successive matches from the left without overlap; the search resumes at
  the end of a match (one further after an empty match). The last argument is the text
  from position \<open>i\<close> on; \<open>lo\<close> is where the search may resume.
\<close>

fun finditer_from :: "rx \<Rightarrow> ustr \<Rightarrow> nat \<Rightarrow> nat \<Rightarrow> ustr \<Rightarrow> rmatch list" where
  "finditer_from r s lo i [] =
     (if i < lo then []
      else (case match_at r s i of None \<Rightarrow> [] | Some m \<Rightarrow> [m]))"
| "finditer_from r s lo i (c # cs) =
     (if i < lo then finditer_from r s lo (i + 1) cs
      else (case match_at r s i of
              None \<Rightarrow> finditer_from r s lo (i + 1) cs
            | Some m \<Rightarrow> m # finditer_from r s (max (m_end m) (i + 1)) (i + 1) cs))"

definition finditer :: "rx \<Rightarrow> ustr \<Rightarrow> rmatch list" where
  "finditer r s = finditer_from r s 0 0 s"

definition findall_group :: "rx \<Rightarrow> ustr \<Rightarrow> ustr list" where
  "findall_group r s = map (group1_text s) (finditer r s)"

text \<open>\<open>re.findall\<close> for an expression without a group: the matched texts.\<close>

definition findall :: "rx \<Rightarrow> ustr \<Rightarrow> ustr list" where
  "findall r s = map (group0 s) (finditer r s)"

text \<open>\<open>re.sub(r, '', s)\<close>: every match of \<open>finditer\<close> removed.\<close>

fun remove_spans :: "ustr \<Rightarrow> nat \<Rightarrow> rmatch list \<Rightarrow> ustr" where
  "remove_spans s pos [] = drop pos s"
| "remove_spans s pos (m # ms) = slice s pos (m_start m) @ remove_spans s (m_end m) ms"

definition re_sub_empty :: "rx \<Rightarrow> ustr \<Rightarrow> ustr" where
  "re_sub_empty r s = remove_spans s 0 (finditer r s)"

section \<open>GlossaryManager (processors/glossary\_manager.py)\<close>

text \<open>
  A term is a dict. \<open>add_term\<close> writes all five keys; a term handed to \<open>create\<close> by the
  caller may lack any of them, so every field is optional. \<open>term['original']\<close> on a term
  without that key raises \<open>KeyError\<close>.
\<close>

record gterm =
  g_original :: "ustr option"
  g_translation :: "ustr option"
  g_category :: "ustr option"
  g_first_appearance :: "ustr option"
  g_context :: "ustr option"

record glossary_data =
  series_name :: ustr
  source_language :: ustr
  target_language :: ustr
  created_date :: ustr
  last_updated :: ustr
  g_terms :: "gterm list"

text \<open>The state set up by \<open>__init__\<close> when no glossary file is loaded.\<close>

definition init_glossary :: glossary_data where
  "init_glossary =
     \<lparr>series_name = [], source_language = [], target_language = [],
      created_date = [], last_updated = [], g_terms = []\<rparr>"

text \<open>
  \<open>create\<close>: the timestamp \<open>datetime.now().isoformat()\<close> is the argument \<open>now\<close>;
  \<open>terms or []\<close> turns both \<open>None\<close> and the empty list into a fresh empty list.
\<close>

definition create ::
  "ustr \<Rightarrow> ustr \<Rightarrow> ustr \<Rightarrow> ustr \<Rightarrow> gterm list option \<Rightarrow> glossary_data" where
  "create series src tgt now ts =
     \<lparr>series_name = series, source_language = src, target_language = tgt,
      created_date = now, last_updated = now,
      g_terms = (case ts of None \<Rightarrow> [] | Some l \<Rightarrow> l)\<rparr>"

fun find_term :: "gterm list \<Rightarrow> ustr \<Rightarrow> py_error + gterm option" where
  "find_term [] original = Inr None"
| "find_term (t # ts) original =
     (case g_original t of
        None \<Rightarrow> Inl KeyError
      | Some o' \<Rightarrow> if o' = original then Inr (Some t) else find_term ts original)"

text \<open>
  \<open>add_term\<close>: \<open>if existing:\<close> tests the found dict, which holds the key
  \<open>original\<close> and is therefore non-empty, hence true.
\<close>

definition add_term ::
  "glossary_data \<Rightarrow> ustr \<Rightarrow> ustr \<Rightarrow> ustr \<Rightarrow> ustr \<Rightarrow> ustr \<Rightarrow> py_error + glossary_data" where
  "add_term g original translation category first_appearance context =
     (case find_term (g_terms g) original of
        Inl e \<Rightarrow> Inl e
      | Inr (Some existing) \<Rightarrow> Inr g
      | Inr None \<Rightarrow>
          Inr (g\<lparr>g_terms := g_terms g @
                 [\<lparr>g_original = Some original, g_translation = Some translation,
                   g_category = Some category, g_first_appearance = Some first_appearance,
                   g_context = Some context\<rparr>]\<rparr>))"

text \<open>
  A client of the manager: a sequence of \<open>create\<close> and \<open>add_term\<close> calls. An
  \<open>add_term\<close> that raises has changed nothing (the exception leaves \<open>find_term\<close>, before
  the append), so the next call sees the same state.
\<close>

datatype gm_call =
    Create ustr ustr ustr ustr "gterm list option"
  | AddTerm ustr ustr ustr ustr ustr

fun apply_call :: "glossary_data \<Rightarrow> gm_call \<Rightarrow> glossary_data" where
  "apply_call g (Create series src tgt now ts) = create series src tgt now ts"
| "apply_call g (AddTerm original translation category first_appearance context) =
     (case add_term g original translation category first_appearance context of
        Inl e \<Rightarrow> g
      | Inr g' \<Rightarrow> g')"

fun run_calls :: "glossary_data \<Rightarrow> gm_call list \<Rightarrow> glossary_data" where
  "run_calls g [] = g"
| "run_calls g (c # cs) = run_calls (apply_call g c) cs"

definition originals :: "glossary_data \<Rightarrow> ustr option list" where
  "originals g = map g_original (g_terms g)"

text \<open>Every term has the key \<open>original\<close>, and no two terms share its value.\<close>

definition unique_originals :: "gterm list \<Rightarrow> bool" where
  "unique_originals ts = (list_all (\<lambda>t. g_original t \<noteq> None) ts \<and> distinct (map g_original ts))"

fun create_unique :: "gm_call \<Rightarrow> bool" where
  "create_unique (Create series src tgt now ts) =
     unique_originals (case ts of None \<Rightarrow> [] | Some l \<Rightarrow> l)"
| "create_unique (AddTerm original translation category first_appearance context) = True"

definition term_a :: gterm where
  "term_a = \<lparr>g_original = Some [0x61], g_translation = Some [0x62],
             g_category = Some [0x63], g_first_appearance = Some [], g_context = Some []\<rparr>"

section \<open>Retry orchestration of the translation QA stage (stage\_02a\_translation\_qa.py)\<close>

text \<open>
  One iteration of the \<open>while retry_count < max_retries\<close> loop of \<open>run_stage_2a\<close> builds a
  validator, reads every episode file, validates it, auto-fixes and rewrites it, and leaves
  three counters. The files and the translation backend are the state \<open>'w\<close>; the body of the
  iteration is the parameter \<open>pass\<close>, a transformer of that state that returns the counters.
  The loop control below is the code's.
\<close>

record pass_result =
  lang_errors :: nat
  lang_warnings :: nat
  lang_fixed :: nat

record 'w retry_state =
  retry_count :: nat
  lang_passed :: bool
  cumulative_fixed :: nat
  last_pass :: "pass_result option"
  world :: 'w

definition retry_init :: "'w \<Rightarrow> 'w retry_state" where
  "retry_init w =
     \<lparr>retry_count = 0, lang_passed = False, cumulative_fixed = 0, last_pass = None, world = w\<rparr>"

function retry_loop ::
  "('w \<Rightarrow> pass_result \<times> 'w) \<Rightarrow> bool \<Rightarrow> int \<Rightarrow> 'w retry_state \<Rightarrow> 'w retry_state" where
  "retry_loop pass auto_fix max_retries st =
     (if int (retry_count st) < max_retries then
        (let r = fst (pass (world st));
             st' = \<lparr>retry_count = retry_count st + 1,
                    lang_passed = (lang_errors r = 0),
                    cumulative_fixed = cumulative_fixed st + lang_fixed r,
                    last_pass = Some r,
                    world = snd (pass (world st))\<rparr>
         in if lang_errors r = 0 then st'
            else if \<not> auto_fix then st'
            else if lang_fixed r = 0 \<and> lang_errors r > 0 then st'
            else retry_loop pass auto_fix max_retries st')
      else st)"
  by pat_completeness auto
termination
  by (relation "measure (\<lambda>(pass, auto_fix, max_retries, st). nat (max_retries - int (retry_count st)))")
     auto

section \<open>TranslationQAValidator (processors/translation\_qa.py)\<close>

definition s_korean :: ustr where \<comment> \<open>'korean'\<close>
  "s_korean = [0x6B, 0x6F, 0x72, 0x65, 0x61, 0x6E]"

definition s_japanese :: ustr where \<comment> \<open>'japanese'\<close>
  "s_japanese = [0x6A, 0x61, 0x70, 0x61, 0x6E, 0x65, 0x73, 0x65]"

definition s_taiwanese :: ustr where \<comment> \<open>'taiwanese'\<close>
  "s_taiwanese = [0x74, 0x61, 0x69, 0x77, 0x61, 0x6E, 0x65, 0x73, 0x65]"

definition s_traditional_chinese :: ustr where \<comment> \<open>'traditional\_chinese'\<close>
  "s_traditional_chinese =
     [0x74, 0x72, 0x61, 0x64, 0x69, 0x74, 0x69, 0x6F, 0x6E, 0x61, 0x6C, 0x5F, 0x63, 0x68,
      0x69, 0x6E, 0x65, 0x73, 0x65]"

definition s_language_mixing :: ustr where \<comment> \<open>'language\_mixing'\<close>
  "s_language_mixing =
     [0x6C, 0x61, 0x6E, 0x67, 0x75, 0x61, 0x67, 0x65, 0x5F, 0x6D, 0x69, 0x78, 0x69, 0x6E, 0x67]"

definition s_glossary_mismatch :: ustr where \<comment> \<open>'glossary\_mismatch'\<close>
  "s_glossary_mismatch =
     [0x67, 0x6C, 0x6F, 0x73, 0x73, 0x61, 0x72, 0x79, 0x5F, 0x6D, 0x69, 0x73, 0x6D, 0x61,
      0x74, 0x63, 0x68]"

definition s_untranslated_term :: ustr where \<comment> \<open>'untranslated\_term'\<close>
  "s_untranslated_term =
     [0x75, 0x6E, 0x74, 0x72, 0x61, 0x6E, 0x73, 0x6C, 0x61, 0x74, 0x65, 0x64, 0x5F, 0x74,
      0x65, 0x72, 0x6D]"

definition s_character :: ustr where \<comment> \<open>'character'\<close>
  "s_character = [0x63, 0x68, 0x61, 0x72, 0x61, 0x63, 0x74, 0x65, 0x72]"

definition s_error :: ustr where \<comment> \<open>'error'\<close>
  "s_error = [0x65, 0x72, 0x72, 0x6F, 0x72]"

definition s_warning :: ustr where \<comment> \<open>'warning'\<close>
  "s_warning = [0x77, 0x61, 0x72, 0x6E, 0x69, 0x6E, 0x67]"

text \<open>
  \<open>KOREAN_ONOMATOPOEIA\<close>, the 52 sound and mimetic words of the source, word by word
  in the order of the source.
\<close>

definition KOREAN_ONOMATOPOEIA :: "ustr list" where
  "KOREAN_ONOMATOPOEIA =
     [[0xD081, 0xD081], [0xCFF5], [0xCF85], [0xC9DD, 0xC9DD], [0xB529, 0xB3D9],
      [0xB775, 0xB3D9], [0xB69D, 0xB69D], [0xC878, 0xC878], [0xCCA0, 0xC369],
      [0xCA0D, 0xADF8, 0xB791], [0xBE75], [0xD391], [0xD0C1], [0xB531], [0xCA5D, 0xCA5D],
      [0xCC0D, 0xCC0D], [0xB07D, 0xB07D], [0xB07C, 0xC775], [0xC090, 0xAC71], [0xB35C, 0xCEF9],
      [0xCFF5, 0xCFF5], [0xCF85, 0xCF85], [0xB450, 0xADFC, 0xB450, 0xADFC],
      [0xCF69, 0xB2E5, 0xCF69, 0xB2E5], [0xD6D7], [0xD765], [0xD5C9], [0xC5C9, 0xC5C9],
      [0xD751, 0xD751], [0xC559, 0xC559], [0xAE54, 0xAE54], [0xD788, 0xD788], [0xD638, 0xD638],
      [0xB044, 0xB355, 0xB044, 0xB355], [0xD478, 0xD558, 0xD558], [0xAEC4, 0xAEC4],
      [0xD0A4, 0xB4DD, 0xD0A4, 0xB4DD], [0xB059, 0xB059], [0xCA5D], [0xD478], [0xD5D0],
      [0xC5E5], [0xC5D0, 0xC787], [0xC0B4, 0xAE08, 0xC0B4, 0xAE08], [0xD6C4, 0xB2E4, 0xB2E5],
      [0xB69C, 0xBC85, 0xB69C, 0xBC85], [0xD130, 0xBC85, 0xD130, 0xBC85],
      [0xD718, 0xCCAD, 0xD718, 0xCCAD], [0xBE44, 0xD2C0, 0xBE44, 0xD2C0],
      [0xC544, 0xC7A5, 0xC544, 0xC7A5], [0xB4A4, 0xB6B1, 0xB4A4, 0xB6B1],
      [0xC0AC, 0xBFD0, 0xC0AC, 0xBFD0]]"

text \<open>The dataclass \<open>QAIssue\<close>; its fields carry the prefix \<open>i_\<close>.\<close>

record qa_issue =
  i_type :: ustr
  i_severity :: ustr
  i_text :: ustr
  i_message :: ustr
  i_position :: "nat option"
  i_expected :: "ustr option"
  i_context :: "ustr option"

text \<open>
  A glossary term as the validator reads it (\<open>term.get\<close> with defaults), and the entries of
  \<open>char_terms\<close>.
\<close>

record qa_term =
  q_original :: "ustr option"
  q_translation :: "ustr option"
  q_category :: "ustr option"
  q_context :: "ustr option"
  q_known_wrong_variants :: "ustr list option"

record char_term =
  c_original :: ustr
  c_translation :: ustr
  c_context :: ustr
  c_known_wrong_variants :: "ustr list"

text \<open>
  The validator object: \<open>self.source_lang\<close>, \<open>self.target_lang\<close>, the glossary terms, the
  flag and the three lookup tables built at construction.
\<close>

record validator =
  self_source_lang :: ustr
  self_target_lang :: ustr
  self_glossary :: "qa_term list"
  skip_language_mixing :: bool
  term_map :: "(ustr \<times> ustr) list"
  char_terms :: "char_term list"
  known_variants :: "(ustr \<times> ustr) list"

text \<open>The pattern \<open>[U+AC00-U+D7AF]+\<close>: a run of Hangul syllables.\<close>

definition korean_pattern :: rx where
  "korean_pattern = Rep 1 (\<lambda>c. 0xAC00 \<le> c \<and> c \<le> 0xD7AF)"

text \<open>
  The two messages are f-strings: a fixed Korean prefix, the matched text, and a closing
  double quote.
\<close>

definition msg_onomatopoeia :: "ustr \<Rightarrow> ustr" where
  "msg_onomatopoeia korean_text =
     [0xC758, 0xC131, 0xC5B4, 0x2F, 0xC758, 0xD0DC, 0xC5B4, 0x20, 0xC720, 0xC9C0, 0xB428,
      0x20, 0x28, 0xC2A4, 0xD0C0, 0xC77C, 0x20, 0xC120, 0xD0DD, 0x29, 0x3A, 0x20, 0x22]
     @ korean_text @ [0x22]"

definition msg_source_found :: "ustr \<Rightarrow> ustr" where
  "msg_source_found korean_text =
     [0xC18C, 0xC2A4, 0x20, 0xC5B8, 0xC5B4, 0x28, 0xD55C, 0xAD6D, 0xC5B4, 0x29, 0x20,
      0xBC1C, 0xACAC, 0x3A, 0x20, 0x22]
     @ korean_text @ [0x22]"

definition mixing_issue :: "ustr \<Rightarrow> rmatch \<Rightarrow> qa_issue" where
  "mixing_issue text m =
     (let korean_text = group0 text m;
          position = m_start m;
          start = position - 30;
          end' = min (length text) (position + length korean_text + 30);
          context = slice text start end'
      in if korean_text \<in> set KOREAN_ONOMATOPOEIA
         then \<lparr>i_type = s_language_mixing, i_severity = s_warning, i_text = korean_text,
               i_message = msg_onomatopoeia korean_text, i_position = Some position,
               i_expected = None, i_context = Some context\<rparr>
         else \<lparr>i_type = s_language_mixing, i_severity = s_error, i_text = korean_text,
               i_message = msg_source_found korean_text, i_position = Some position,
               i_expected = None, i_context = Some context\<rparr>)"

definition check_language_mixing :: "validator \<Rightarrow> ustr \<Rightarrow> qa_issue list" where
  "check_language_mixing v text =
     (if self_source_lang v \<noteq> s_korean then []
      else map (mixing_issue text) (finditer korean_pattern text))"

text \<open>
  Truth value of an \<open>Optional[str]\<close>: \<open>None\<close> and the empty string are false.
\<close>

fun truthy :: "ustr option \<Rightarrow> bool" where
  "truthy None = False"
| "truthy (Some s) = (s \<noteq> [])"

subsection \<open>Construction and the glossary checks\<close>

definition s_chinese :: ustr where \<comment> \<open>'chinese'\<close>
  "s_chinese = [0x63, 0x68, 0x69, 0x6E, 0x65, 0x73, 0x65]"

definition s_mandarin :: ustr where \<comment> \<open>'mandarin'\<close>
  "s_mandarin = [0x6D, 0x61, 0x6E, 0x64, 0x61, 0x72, 0x69, 0x6E]"

text \<open>\<open>_normalize_language\<close>; \<open>lower\<close> is \<open>str.lower\<close>.\<close>

definition normalize_language :: "(ustr \<Rightarrow> ustr) \<Rightarrow> ustr \<Rightarrow> ustr" where
  "normalize_language lower lang =
     (let l = lower lang
      in if l = s_korean then s_korean
         else if l = s_japanese then s_japanese
         else if l = s_taiwanese \<or> l = s_traditional_chinese \<or> l = s_chinese \<or> l = s_mandarin
           then s_chinese
         else l)"

text \<open>\<open>_build_lookup_tables\<close>, one term at a time.\<close>

record lookup_tables =
  lt_term_map :: "(ustr \<times> ustr) list"
  lt_char_terms :: "char_term list"
  lt_known_variants :: "(ustr \<times> ustr) list"

fun register_variants :: "ustr \<Rightarrow> ustr list \<Rightarrow> (ustr \<times> ustr) list \<Rightarrow> (ustr \<times> ustr) list" where
  "register_variants translation [] kv = kv"
| "register_variants translation (variant # variants) kv =
     register_variants translation variants
       (if variant \<noteq> [] \<and> variant \<noteq> translation then dict_set variant translation kv else kv)"

definition lookup_step :: "qa_term \<Rightarrow> lookup_tables \<Rightarrow> lookup_tables" where
  "lookup_step t lt =
     (let original = the_default [] (q_original t);
          translation = the_default [] (q_translation t);
          category = the_default [] (q_category t);
          variants = the_default [] (q_known_wrong_variants t)
      in if original \<noteq> [] \<and> translation \<noteq> [] then
           \<lparr>lt_term_map = dict_set original translation (lt_term_map lt),
            lt_char_terms =
              (if category = s_character
               then lt_char_terms lt @
                      [\<lparr>c_original = original, c_translation = translation,
                        c_context = the_default [] (q_context t),
                        c_known_wrong_variants = variants\<rparr>]
               else lt_char_terms lt),
            lt_known_variants = register_variants translation variants (lt_known_variants lt)\<rparr>
         else lt)"

fun build_lookup_tables :: "qa_term list \<Rightarrow> lookup_tables \<Rightarrow> lookup_tables" where
  "build_lookup_tables [] lt = lt"
| "build_lookup_tables (t # ts) lt = build_lookup_tables ts (lookup_step t lt)"

text \<open>
  \<open>__init__\<close>. The glossary is the list under \<open>terms\<close> (\<open>None\<close> for no glossary or no
  such key); \<open>skip_language_mixing=None\<close> compares the normalised language names.
\<close>

definition init_validator ::
  "(ustr \<Rightarrow> ustr) \<Rightarrow> ustr \<Rightarrow> ustr \<Rightarrow> qa_term list option \<Rightarrow> bool option \<Rightarrow> validator" where
  "init_validator lower source_lang target_lang glossary skip =
     (let g = the_default [] glossary;
          lt = build_lookup_tables g \<lparr>lt_term_map = [], lt_char_terms = [], lt_known_variants = []\<rparr>
      in \<lparr>self_source_lang = source_lang, self_target_lang = target_lang, self_glossary = g,
          skip_language_mixing =
            (case skip of
               None \<Rightarrow> normalize_language lower source_lang = normalize_language lower target_lang
             | Some b \<Rightarrow> b),
          term_map = lt_term_map lt, char_terms = lt_char_terms lt,
          known_variants = lt_known_variants lt\<rparr>)"

text \<open>
  \<open>SIMILAR_CHARACTERS\<close>, and \<open>_get_similar_alternatives\<close>. The alternatives are collected in
  a set, whose order of iteration Python does not fix; here they come in the order in
  which they are made, each once.
\<close>

definition SIMILAR_CHARACTERS :: "(nat \<times> nat list) list" where
  "SIMILAR_CHARACTERS =
     [(0x8CE2, [0x70AB, 0x7384, 0x9249, 0x6CEB, 0x7729]),
      (0x4FCA, [0x6D5A, 0x5CFB, 0x99FF, 0x6FEC]),
      (0x654F, [0x6C11, 0x73C9, 0x65FB, 0x739F, 0x61AB]),
      (0x8D99, [0x66F9, 0x5146, 0x671D]),
      (0x8F1D, [0x7147, 0x6689, 0x5FBD, 0x63EE]),
      (0x4EC1, [0x4EC1, 0x5BC5, 0x8A8D]),
      (0x79C0, [0x6D19, 0x58FD, 0x4FEE, 0x5B88]),
      (0x8D6B, [0x8D6B, 0x7200, 0x5687]),
      (0x5141, [0x5C39, 0x6F64, 0x502B]),
      (0x6FDF, [0x6E08, 0x796D, 0x5236]),
      (0x96C5, [0x4E9E, 0x5A25, 0x82BD])]"

fun alternatives_from :: "ustr \<Rightarrow> ustr \<Rightarrow> ustr list" where
  "alternatives_from before [] = []"
| "alternatives_from before (char # after) =
     (case map_of SIMILAR_CHARACTERS char of
        None \<Rightarrow> []
      | Some alts \<Rightarrow>
          map (\<lambda>alt_char. before @ [alt_char] @ after) (filter (\<lambda>alt_char. alt_char \<noteq> char) alts))
     @ alternatives_from (before @ [char]) after"

definition get_similar_alternatives :: "ustr \<Rightarrow> ustr list" where
  "get_similar_alternatives text = remdups (alternatives_from [] text)"

text \<open>The messages of the three glossary checks (f-strings with Korean words).\<close>

definition quote_arrow :: ustr where
  "quote_arrow = [0x22, 0x20, 0x2192, 0x20, 0x22]"

definition msg_untranslated :: "ustr \<Rightarrow> ustr \<Rightarrow> ustr" where
  "msg_untranslated original expected =
     [0xBC88, 0xC5ED, 0xB418, 0xC9C0, 0x20, 0xC54A, 0xC740, 0x20, 0xC6A9, 0xC5B4, 0x3A, 0x20, 0x22]
     @ original @ quote_arrow @ expected @ [0x22]"

definition msg_wrong_variant :: "ustr \<Rightarrow> ustr \<Rightarrow> ustr" where
  "msg_wrong_variant wrong_variant correct_translation =
     [0xC798, 0xBABB, 0xB41C, 0x20, 0xBC88, 0xC5ED, 0x20, 0xBCC0, 0xD615, 0x3A, 0x20, 0x22]
     @ wrong_variant @ quote_arrow @ correct_translation
     @ [0x22, 0x20, 0xC0AC, 0xC6A9, 0x20, 0xD544, 0xC694]"

definition msg_mismatch :: "ustr \<Rightarrow> ustr \<Rightarrow> ustr" where
  "msg_mismatch alt expected =
     [0xC6A9, 0xC5B4, 0x20, 0xBD88, 0xC77C, 0xCE58, 0x3A, 0x20, 0x22]
     @ alt @ quote_arrow @ expected @ [0x22, 0x20, 0xC0AC, 0xC6A9, 0x20, 0xD544, 0xC694]"

text \<open>
  The places of a non-empty text in another, from the left and without overlap: what the
  loop \<open>pos = text.find(wrong_variant, pos)\<close>, \<open>pos += len(wrong_variant)\<close> visits. The
  keys of \<open>known_variants\<close> are non-empty (\<open>if variant and ...\<close> at construction), so the
  loop advances.
\<close>

fun occurrences_from :: "ustr \<Rightarrow> nat \<Rightarrow> nat \<Rightarrow> ustr \<Rightarrow> nat list" where
  "occurrences_from sub k i [] = []"
| "occurrences_from sub k i (c # cs) =
     (if 0 < k then occurrences_from sub (k - 1) (i + 1) cs
      else if startswith sub (c # cs) then i # occurrences_from sub (length sub - 1) (i + 1) cs
      else occurrences_from sub 0 (i + 1) cs)"

definition untranslated_issues :: "(ustr \<times> ustr) list \<Rightarrow> ustr \<Rightarrow> qa_issue list" where
  "untranslated_issues tm text =
     map (\<lambda>(original, expected).
            \<lparr>i_type = s_untranslated_term, i_severity = s_error, i_text = original,
             i_message = msg_untranslated original expected, i_position = None,
             i_expected = Some expected, i_context = None\<rparr>)
         (filter (\<lambda>(original, expected). py_in original text) tm)"

definition variant_issues :: "(ustr \<times> ustr) list \<Rightarrow> ustr \<Rightarrow> qa_issue list" where
  "variant_issues kv text =
     concat (map (\<lambda>(wrong_variant, correct_translation).
                    map (\<lambda>pos.
                           \<lparr>i_type = s_glossary_mismatch, i_severity = s_error,
                            i_text = wrong_variant,
                            i_message = msg_wrong_variant wrong_variant correct_translation,
                            i_position = Some pos, i_expected = Some correct_translation,
                            i_context =
                              Some (slice text (pos - 20)
                                      (min (length text) (pos + length wrong_variant + 20)))\<rparr>)
                        (occurrences_from wrong_variant 0 0 text))
                 kv)"

definition similar_issues :: "char_term list \<Rightarrow> ustr \<Rightarrow> qa_issue list" where
  "similar_issues cts text =
     concat (map (\<lambda>term.
                    (let expected = c_translation term
                     in concat (map (\<lambda>alt.
                          (case py_find alt text of
                             None \<Rightarrow> []
                           | Some pos \<Rightarrow>
                               if alt \<noteq> expected then
                                 [\<lparr>i_type = s_glossary_mismatch, i_severity = s_error,
                                   i_text = alt, i_message = msg_mismatch alt expected,
                                   i_position = None, i_expected = Some expected,
                                   i_context =
                                     Some (slice text (pos - 20)
                                             (min (length text) (pos + length alt + 20)))\<rparr>]
                               else []))
                        (get_similar_alternatives expected))))
                 cts)"

definition check_glossary_consistency :: "validator \<Rightarrow> ustr \<Rightarrow> qa_issue list" where
  "check_glossary_consistency v text =
     untranslated_issues (term_map v) text @ variant_issues (known_variants v) text @
     similar_issues (char_terms v) text"

record qa_result =
  qr_passed :: bool
  qr_issues :: "qa_issue list"
  qr_episode_number :: "int option"

definition validate :: "validator \<Rightarrow> ustr \<Rightarrow> int option \<Rightarrow> qa_result" where
  "validate v text episode_number =
     (if skip_language_mixing v
      then \<lparr>qr_passed = True, qr_issues = [], qr_episode_number = episode_number\<rparr>
      else
        (let issues = check_language_mixing v text @ check_glossary_consistency v text
         in \<lparr>qr_passed = (filter (\<lambda>i. i_severity i = s_error) issues = []),
             qr_issues = issues, qr_episode_number = episode_number\<rparr>))"

subsection \<open>Automatic fixes\<close>

text \<open>
  The translation backend. \<open>llm_processor.execute\<close> is an outside call: it may raise, or
  return a result whose \<open>output\<close> is missing (\<open>None\<close> here, which also stands for a false
  result) or a string. The reply may depend on the number of the call, the segment, the
  target language and the context sent with it.
\<close>

datatype llm_reply = LLM_Raises | LLM_Result "ustr option"

type_synonym backend = "nat \<Rightarrow> ustr \<Rightarrow> ustr \<Rightarrow> ustr \<Rightarrow> llm_reply"

record fix_state =
  fixed_text :: ustr
  fixed_count :: nat
  unfixed_issues :: "qa_issue list"

text \<open>\<open>target_lang_map.get(self.target_lang, self.target_lang)\<close>.\<close>

definition map_target :: "ustr \<Rightarrow> ustr" where
  "map_target t =
     (if t = s_japanese then s_japanese
      else if t = s_traditional_chinese then s_taiwanese
      else if t = s_taiwanese then s_taiwanese
      else t)"

text \<open>
  One turn of the loop of \<open>_fix_language_mixing\<close>; \<open>n\<close> counts the calls made to the
  backend so far.
\<close>

definition fix_mixing_step ::
  "backend \<Rightarrow> ustr \<Rightarrow> qa_issue \<Rightarrow> fix_state \<times> nat \<Rightarrow> fix_state \<times> nat" where
  "fix_mixing_step llm target issue sn =
     (let st = fst sn; n = snd sn;
          korean_text = i_text issue;
          context = (if truthy (i_context issue) then the_default [] (i_context issue) else [])
      in if \<not> py_in korean_text (fixed_text st) then (st, n)
         else (case llm n korean_text target context of
                 LLM_Raises \<Rightarrow> (st\<lparr>unfixed_issues := unfixed_issues st @ [issue]\<rparr>, n + 1)
               | LLM_Result out \<Rightarrow>
                   if truthy out then
                     (let translated = strip (the_default [] out)
                      in if re_search korean_pattern translated = None
                         then (st\<lparr>fixed_text := py_replace1 korean_text translated (fixed_text st),
                                  fixed_count := fixed_count st + 1\<rparr>, n + 1)
                         else (st\<lparr>unfixed_issues := unfixed_issues st @ [issue]\<rparr>, n + 1))
                   else (st\<lparr>unfixed_issues := unfixed_issues st @ [issue]\<rparr>, n + 1)))"

fun fix_mixing_loop ::
  "backend \<Rightarrow> ustr \<Rightarrow> qa_issue list \<Rightarrow> fix_state \<times> nat \<Rightarrow> fix_state \<times> nat" where
  "fix_mixing_loop llm target [] sn = sn"
| "fix_mixing_loop llm target (issue # issues) sn =
     fix_mixing_loop llm target issues (fix_mixing_step llm target issue sn)"

definition fix_language_mixing ::
  "validator \<Rightarrow> ustr \<Rightarrow> qa_issue list \<Rightarrow> backend \<Rightarrow> fix_state" where
  "fix_language_mixing v text issues llm =
     fst (fix_mixing_loop llm (map_target (self_target_lang v)) issues
            (\<lparr>fixed_text = text, fixed_count = 0, unfixed_issues = []\<rparr>, 0))"

text \<open>
  The first loop of \<open>auto_fix\<close>. The state is the working text, the count, the unfixed
  issues and the collected \<open>language_mixing_issues\<close>. The two replacement branches run the
  same statements.
\<close>

definition replace_issue :: "qa_issue \<Rightarrow> fix_state \<Rightarrow> fix_state" where
  "replace_issue issue st =
     (if py_in (i_text issue) (fixed_text st)
      then st\<lparr>fixed_text := py_replace (i_text issue) (the_default [] (i_expected issue)) (fixed_text st),
              fixed_count := fixed_count st + 1\<rparr>
      else st)"

definition auto_fix_step ::
  "qa_issue \<Rightarrow> fix_state \<times> qa_issue list \<Rightarrow> fix_state \<times> qa_issue list" where
  "auto_fix_step issue sl =
     (let st = fst sl; language_mixing_issues = snd sl
      in if i_type issue = s_glossary_mismatch \<and> truthy (i_expected issue)
           then (replace_issue issue st, language_mixing_issues)
         else if i_type issue = s_language_mixing \<and> i_severity issue = s_error
           then (st, language_mixing_issues @ [issue])
         else if i_type issue = s_untranslated_term \<and> truthy (i_expected issue)
           then (replace_issue issue st, language_mixing_issues)
         else (st\<lparr>unfixed_issues := unfixed_issues st @ [issue]\<rparr>, language_mixing_issues))"

fun auto_fix_loop ::
  "qa_issue list \<Rightarrow> fix_state \<times> qa_issue list \<Rightarrow> fix_state \<times> qa_issue list" where
  "auto_fix_loop [] sl = sl"
| "auto_fix_loop (issue # issues) sl = auto_fix_loop issues (auto_fix_step issue sl)"

text \<open>
  \<open>auto_fix\<close>; \<open>llm_processor=None\<close> is \<open>None\<close>, and a processor object is true.
\<close>

definition auto_fix :: "validator \<Rightarrow> ustr \<Rightarrow> qa_issue list \<Rightarrow> backend option \<Rightarrow> fix_state" where
  "auto_fix v text issues llm_processor =
     (let sl = auto_fix_loop issues (\<lparr>fixed_text = text, fixed_count = 0, unfixed_issues = []\<rparr>, []);
          st = fst sl; language_mixing_issues = snd sl
      in if language_mixing_issues \<noteq> [] \<and> llm_processor \<noteq> None then
           (case llm_processor of
              None \<Rightarrow> st
            | Some llm \<Rightarrow>
                (let mx = fix_language_mixing v (fixed_text st) language_mixing_issues llm
                 in \<lparr>fixed_text = fixed_text mx,
                     fixed_count = fixed_count st + fixed_count mx,
                     unfixed_issues = unfixed_issues st @ unfixed_issues mx\<rparr>))
         else if language_mixing_issues \<noteq> [] then
           st\<lparr>unfixed_issues := unfixed_issues st @ language_mixing_issues\<rparr>
         else st)"

text \<open>The three classes of issue that \<open>auto_fix\<close> tells apart, in the order of its tests.\<close>

definition is_replacement :: "qa_issue \<Rightarrow> bool" where
  "is_replacement issue =
     ((i_type issue = s_glossary_mismatch \<or> i_type issue = s_untranslated_term) \<and>
      truthy (i_expected issue))"

definition is_mixing_error :: "qa_issue \<Rightarrow> bool" where
  "is_mixing_error issue = (i_type issue = s_language_mixing \<and> i_severity issue = s_error)"

definition is_other :: "qa_issue \<Rightarrow> bool" where
  "is_other issue = (\<not> is_replacement issue \<and> \<not> is_mixing_error issue)"

subsection \<open>Inputs used below\<close>

text \<open>
  Two validators without glossary and without the flag, from Korean to Japanese and from
  Japanese to Korean; \<open>str.lower\<close> leaves both language names as they are.
\<close>

definition v_ko_ja :: validator where
  "v_ko_ja = init_validator (\<lambda>s. s) s_korean s_japanese None None"

definition v_ja_ko :: validator where
  "v_ja_ko = init_validator (\<lambda>s. s) s_japanese s_korean None None"

text \<open>
  The text of the language-mixing example of the specification: three Hangul words
  (2, 2 and 4 syllables) separated by spaces, a space, and seven Japanese characters.
\<close>

definition p6_text :: ustr where
  "p6_text =
     [0xADF8, 0xB294, 0x20, 0xC9D1, 0xC5D0, 0x20, 0xAC14, 0xB2E4, 0xC640, 0xC11C, 0x20,
      0x5F7C, 0x306F, 0x5BB6, 0x306B, 0x5E30, 0x3063, 0x305F]"

text \<open>The first 8 code points of that text, which the specification expects as one issue.\<close>

definition p6_expected_run :: ustr where
  "p6_expected_run = [0xADF8, 0xB294, 0x20, 0xC9D1, 0xC5D0, 0x20, 0xAC14, 0xB2E4]"

text \<open>
  Issues for \<open>auto_fix\<close>: a glossary mismatch \<open>'zz'\<close> \<open>\<rightarrow>\<close> \<open>'y'\<close>, a retained
  onomatopoeia (a warning) and a leaked Korean word (an error).
\<close>

definition issue_zz :: qa_issue where
  "issue_zz =
     \<lparr>i_type = s_glossary_mismatch, i_severity = s_error, i_text = [0x7A, 0x7A],
      i_message = [], i_position = None, i_expected = Some [0x79], i_context = None\<rparr>"

definition issue_warn :: qa_issue where
  "issue_warn =
     \<lparr>i_type = s_language_mixing, i_severity = s_warning, i_text = [0xCFF5],
      i_message = msg_onomatopoeia [0xCFF5], i_position = Some 0, i_expected = None,
      i_context = Some [0xCFF5, 0x61, 0x62]\<rparr>"

definition issue_mix :: qa_issue where
  "issue_mix =
     \<lparr>i_type = s_language_mixing, i_severity = s_error, i_text = [0xADF8, 0xB294],
      i_message = msg_source_found [0xADF8, 0xB294], i_position = Some 1, i_expected = None,
      i_context = Some [0xCFF5, 0xADF8, 0xB294]\<rparr>"

section \<open>Name consistency (stage\_02\_translate.py)\<close>

text \<open>
  A glossary term of the translation stage is a dict read with \<open>term.get\<close>; the keys
  \<open>_corrected_from\<close>, \<open>_matched_first_name\<close>, \<open>_matched_foreign_name\<close> and
  \<open>_name_replaced\<close> are written by the enforcer.
\<close>

record name_term =
  t_original :: "ustr option"
  t_translation :: "ustr option"
  t_category :: "ustr option"
  t_corrected_from :: "ustr option"
  t_matched_first_name :: "ustr option"
  t_matched_foreign_name :: "ustr option"
  t_name_replaced :: "ustr option"

text \<open>\<open>korean_surnames\<close>: fifty one-syllable surnames, in the order of the source.\<close>

definition korean_surnames :: "nat list" where
  "korean_surnames =
     [0xAE40, 0xC774, 0xBC15, 0xCD5C, 0xC815, 0xAC15, 0xC870, 0xC724, 0xC7A5, 0xC784,
      0xD55C, 0xC624, 0xC11C, 0xC2E0, 0xAD8C, 0xD669, 0xC548, 0xC1A1, 0xB958, 0xC804,
      0xD64D, 0xACE0, 0xBB38, 0xC591, 0xC190, 0xBC30, 0xBC31, 0xD5C8, 0xC720, 0xB0A8,
      0xC2EC, 0xB178, 0xD558, 0xACFD, 0xC131, 0xCC28, 0xC8FC, 0xC6B0, 0xAD6C, 0xBBFC,
      0xC9C4, 0xB098, 0xC9C0, 0xC5C4, 0xBCC0, 0xCC44, 0xC6D0, 0xCC9C, 0xBC29, 0xACF5]"

text \<open>The separators: the katakana middle dot U+30FB and the middle dot U+00B7.\<close>

definition katakana_dot :: ustr where
  "katakana_dot = [0x30FB]"

definition middle_dot :: ustr where
  "middle_dot = [0xB7]"

text \<open>
  First pass: \<open>full_name_map\<close> and \<open>first_name_map\<close>. \<open>original[0]\<close> is the first code
  point, \<open>original[1:]\<close> the rest.
\<close>

record name_maps =
  full_name_map :: "(ustr \<times> ustr \<times> ustr) list"
  first_name_map :: "(ustr \<times> ustr) list"

definition record_first_name :: "ustr \<Rightarrow> ustr \<Rightarrow> ustr \<Rightarrow> name_maps \<Rightarrow> name_maps" where
  "record_first_name original first_name first_name_translation m =
     \<lparr>full_name_map = dict_set original (first_name, first_name_translation) (full_name_map m),
      first_name_map = dict_set first_name first_name_translation (first_name_map m)\<rparr>"

definition first_pass_step :: "ustr \<Rightarrow> name_term \<Rightarrow> name_maps \<Rightarrow> name_maps" where
  "first_pass_step target_lang t m =
     (if t_category t \<noteq> Some s_character then m
      else
        (let original = the_default [] (t_original t);
             translation = the_default [] (t_translation t)
         in if 3 \<le> length original then
              (case original of
                 [] \<Rightarrow> m
               | potential_surname # first_name \<Rightarrow>
                   if potential_surname \<in> set korean_surnames then
                     (if 2 \<le> length first_name then
                        (if target_lang = s_japanese then
                           (if py_in katakana_dot translation then
                              (case py_split1 katakana_dot translation of
                                 [p0, p1] \<Rightarrow> record_first_name original first_name p1 m
                               | _ \<Rightarrow> m)
                            else m)
                         else if target_lang = s_taiwanese then
                           (if 3 \<le> length translation then
                              (let first_name_translation = drop 1 translation
                               in if first_name_translation \<noteq> []
                                  then record_first_name original first_name first_name_translation m
                                  else m)
                            else m)
                         else m)
                      else m)
                   else m)
            else m))"

fun first_pass :: "ustr \<Rightarrow> name_term list \<Rightarrow> name_maps \<Rightarrow> name_maps" where
  "first_pass target_lang [] m = m"
| "first_pass target_lang (t # ts) m = first_pass target_lang ts (first_pass_step target_lang t m)"

text \<open>
  The pass over names of several words: \<open>foreign_name_map\<close>. \<open>parts[0]\<close> and
  \<open>trans_parts[0]\<close> are read under \<open>len(...) >= 1\<close> or \<open>>= 2\<close>, so the lists are non-empty
  there.
\<close>

definition is_multi_part :: "ustr \<Rightarrow> bool" where
  "is_multi_part original = (py_in [0x20] original \<and> 2 \<le> length (py_split_ws original))"

definition set_first_part :: "ustr \<Rightarrow> ustr list \<Rightarrow> (ustr \<times> ustr) list \<Rightarrow> (ustr \<times> ustr) list" where
  "set_first_part short_name trans_parts fm =
     (case trans_parts of [] \<Rightarrow> fm | short_translation # rest \<Rightarrow> dict_set short_name short_translation fm)"

definition foreign_pass_step ::
  "ustr \<Rightarrow> name_term \<Rightarrow> (ustr \<times> ustr) list \<Rightarrow> (ustr \<times> ustr) list" where
  "foreign_pass_step target_lang t fm =
     (if t_category t \<noteq> Some s_character then fm
      else
        (let original = the_default [] (t_original t);
             translation = the_default [] (t_translation t)
         in if is_multi_part original then
              (case py_split_ws original of
                 [] \<Rightarrow> fm
               | short_name # rest \<Rightarrow>
                   if target_lang = s_japanese then
                     (if py_in katakana_dot translation
                      then set_first_part short_name (py_split katakana_dot translation) fm
                      else fm)
                   else if target_lang = s_taiwanese then
                     (if py_in middle_dot translation \<or> py_in katakana_dot translation then
                        (let sep = (if py_in middle_dot translation then middle_dot else katakana_dot)
                         in set_first_part short_name (py_split sep translation) fm)
                      else if py_in [0x20] translation
                      then set_first_part short_name (py_split_ws translation) fm
                      else fm)
                   else fm)
            else fm))"

fun foreign_pass :: "ustr \<Rightarrow> name_term list \<Rightarrow> (ustr \<times> ustr) list \<Rightarrow> (ustr \<times> ustr) list" where
  "foreign_pass target_lang [] fm = fm"
| "foreign_pass target_lang (t # ts) fm =
     foreign_pass target_lang ts (foreign_pass_step target_lang t fm)"

text \<open>\<open>original_translations\<close>, over the character terms.\<close>

fun original_translations :: "name_term list \<Rightarrow> (ustr \<times> ustr) list \<Rightarrow> (ustr \<times> ustr) list" where
  "original_translations [] ot = ot"
| "original_translations (t # ts) ot =
     original_translations ts
       (if t_category t = Some s_character
        then dict_set (the_default [] (t_original t)) (the_default [] (t_translation t)) ot
        else ot)"

text \<open>
  \<open>full_names\<close>: the keys of \<open>full_name_map\<close> and the original of every term, of any
  category, that has several words.
\<close>

definition full_names :: "name_maps \<Rightarrow> name_term list \<Rightarrow> ustr set" where
  "full_names m ts =
     set (map fst (full_name_map m)) \<union>
     set (filter is_multi_part (map (\<lambda>t. the_default [] (t_original t)) ts))"

text \<open>
  The positional fallback for Chinese compounds. \<open>is_cjk\<close> is the test
  \<open>U+4E00 <= c <= U+9FFF\<close>. The loop \<open>for i in range(len(search_region) - 1)\<close> stops at
  the first window of the right length that differs from the correct name and is all
  CJK; \<open>scan_region\<close> returns its index.
\<close>

definition is_cjk :: "nat \<Rightarrow> bool" where
  "is_cjk c = (0x4E00 \<le> c \<and> c \<le> 0x9FFF)"

fun scan_region :: "ustr \<Rightarrow> ustr \<Rightarrow> nat \<Rightarrow> nat \<Rightarrow> nat option" where
  "scan_region search_region correct i 0 = None"
| "scan_region search_region correct i (Suc n) =
     (let potential_name = slice search_region i (i + length correct)
      in if length potential_name = length correct \<and> potential_name \<noteq> correct \<and>
            list_all is_cjk potential_name
         then Some i
         else scan_region search_region correct (i + 1) n)"

text \<open>The value of the f-string \<open>"{a} -> {b}"\<close> with the arrow U+2192.\<close>

definition arrow_note :: "ustr \<Rightarrow> ustr \<Rightarrow> ustr" where
  "arrow_note a b = a @ [0x20, 0x2192, 0x20] @ b"

text \<open>
  \<open>expected_pos = int(pos_ratio * len(current_translation))\<close> with
  \<open>pos_ratio = name_pos / len(original)\<close> is computed in double-precision floating point;
  that computation is the parameter \<open>fpos\<close>, applied to \<open>name_pos\<close>, \<open>len(original)\<close> and
  \<open>len(current_translation)\<close>.
\<close>

definition positional_fix ::
  "(nat \<Rightarrow> nat \<Rightarrow> nat \<Rightarrow> nat) \<Rightarrow> ustr \<Rightarrow> ustr \<Rightarrow> ustr \<Rightarrow> name_term \<Rightarrow> name_term" where
  "positional_fix fpos first_name correct_translation original t =
     (let current_translation = the_default [] (t_translation t)
      in case py_find first_name original of
           None \<Rightarrow> t
         | Some name_pos \<Rightarrow>
             (let expected_pos = fpos name_pos (length original) (length current_translation);
                  search_start = expected_pos - 2;
                  search_end = min (length current_translation)
                                   (expected_pos + length correct_translation + 2);
                  search_region = slice current_translation search_start search_end
              in case scan_region search_region correct_translation 0 (length search_region - 1) of
                   None \<Rightarrow> t
                 | Some i \<Rightarrow>
                     (let potential_name = slice search_region i (i + length correct_translation);
                          actual_start = search_start + i;
                          new_translation =
                            take actual_start current_translation @ correct_translation @
                            drop (actual_start + length correct_translation) current_translation
                      in if new_translation \<noteq> current_translation
                         then t\<lparr>t_translation := Some new_translation,
                                t_corrected_from := Some current_translation,
                                t_name_replaced := Some (arrow_note potential_name correct_translation)\<rparr>
                         else t)))"

text \<open>
  The loop over \<open>first_name_map.items()\<close>: the first known first name that occurs in the
  original decides, and the loop ends there.
\<close>

fun fix_first_name ::
  "(nat \<Rightarrow> nat \<Rightarrow> nat \<Rightarrow> nat) \<Rightarrow> ustr \<Rightarrow> (ustr \<times> ustr) list \<Rightarrow> (ustr \<times> ustr) list \<Rightarrow>
   name_term \<Rightarrow> name_term" where
  "fix_first_name fpos target_lang ot [] t = t"
| "fix_first_name fpos target_lang ot ((first_name, correct_translation) # rest) t =
     (let original = the_default [] (t_original t);
          current_translation = the_default [] (t_translation t)
      in if py_in first_name original then
           (if original = first_name then
              (if current_translation \<noteq> correct_translation
               then t\<lparr>t_translation := Some correct_translation,
                      t_corrected_from := Some current_translation,
                      t_matched_first_name := Some first_name\<rparr>
               else t)
            else
              (let wrong_translation = the_default [] (map_of ot first_name)
               in if wrong_translation \<noteq> [] \<and> wrong_translation \<noteq> correct_translation \<and>
                     py_in wrong_translation current_translation then
                    (let new_translation =
                           py_replace wrong_translation correct_translation current_translation
                     in if new_translation \<noteq> current_translation
                        then t\<lparr>t_translation := Some new_translation,
                               t_corrected_from := Some current_translation,
                               t_name_replaced :=
                                 Some (arrow_note wrong_translation correct_translation)\<rparr>
                        else t)
                  else if target_lang = s_taiwanese \<and> 2 \<le> length correct_translation
                  then positional_fix fpos first_name correct_translation original t
                  else t))
         else fix_first_name fpos target_lang ot rest t)"

text \<open>Second pass, for one term.\<close>

definition second_pass_step ::
  "(nat \<Rightarrow> nat \<Rightarrow> nat \<Rightarrow> nat) \<Rightarrow> ustr \<Rightarrow> name_maps \<Rightarrow> (ustr \<times> ustr) list \<Rightarrow>
   (ustr \<times> ustr) list \<Rightarrow> ustr set \<Rightarrow> name_term \<Rightarrow> name_term" where
  "second_pass_step fpos target_lang m fm ot fulls t =
     (let original = the_default [] (t_original t);
          current_translation = the_default [] (t_translation t)
      in if original \<in> fulls then t
         else (case map_of fm original of
                 Some correct_translation \<Rightarrow>
                   if current_translation \<noteq> correct_translation
                   then t\<lparr>t_translation := Some correct_translation,
                          t_corrected_from := Some current_translation,
                          t_matched_foreign_name := Some original\<rparr>
                   else fix_first_name fpos target_lang ot (first_name_map m) t
               | None \<Rightarrow> fix_first_name fpos target_lang ot (first_name_map m) t))"

definition enforce_name_consistency ::
  "(nat \<Rightarrow> nat \<Rightarrow> nat \<Rightarrow> nat) \<Rightarrow> name_term list \<Rightarrow> ustr \<Rightarrow> name_term list" where
  "enforce_name_consistency fpos terms target_lang =
     (let m = first_pass target_lang terms \<lparr>full_name_map = [], first_name_map = []\<rparr>;
          fm = foreign_pass target_lang terms [];
          ot = original_translations terms [];
          fulls = full_names m terms
      in map (second_pass_step fpos target_lang m fm ot fulls) terms)"

text \<open>
  The glossary of the name-consistency example: the full name (surname U+C774, given
  name U+C11C U+C5F0) translated U+674E U+66F8 U+598D, and the given name alone translated
  U+8212 U+598D.
\<close>

definition term_full :: name_term where
  "term_full =
     \<lparr>t_original = Some [0xC774, 0xC11C, 0xC5F0], t_translation = Some [0x674E, 0x66F8, 0x598D],
      t_category = Some s_character, t_corrected_from = None, t_matched_first_name = None,
      t_matched_foreign_name = None, t_name_replaced = None\<rparr>"

definition term_given :: name_term where
  "term_given =
     \<lparr>t_original = Some [0xC11C, 0xC5F0], t_translation = Some [0x8212, 0x598D],
      t_category = Some s_character, t_corrected_from = None, t_matched_first_name = None,
      t_matched_foreign_name = None, t_name_replaced = None\<rparr>"

text \<open>
  The two maps that the first pass builds from that glossary, and the glossaries whose
  character terms are those two and no others.
\<close>

definition nm_example :: name_maps where
  "nm_example =
     \<lparr>full_name_map = [([0xC774, 0xC11C, 0xC5F0], ([0xC11C, 0xC5F0], [0x66F8, 0x598D]))],
      first_name_map = [([0xC11C, 0xC5F0], [0x66F8, 0x598D])]\<rparr>"

definition only_example_characters :: "name_term list \<Rightarrow> bool" where
  "only_example_characters ts =
     list_all (\<lambda>t. t_category t = Some s_character \<longrightarrow> t = term_full \<or> t = term_given) ts"

section \<open>LLMEpisodeSplitter (processors/llm\_episode\_splitter.py)\<close>

subsection \<open>The pattern catalogue\<close>

text \<open>
  A regular expression is kept with its source text (which the code compares and tests
  for emptiness) and with what \<open>re.match\<close> computes for it on a line; \<open>None\<close> is an
  expression that \<open>re\<close> rejects. An expression proposed by the backend is any such pair.
\<close>

record regex =
  rx_source :: ustr
  rx_matcher :: "(ustr \<Rightarrow> rmatch option) option"

definition digit :: rx where
  "digit = Cls isdecimal"

definition digits :: rx where \<comment> \<open>\<open>\d+\<close>\<close>
  "digits = Rep 1 isdecimal"

definition spaces :: rx where \<comment> \<open>\<open>\s*\<close>\<close>
  "spaces = Rep 0 isspace"

definition any_plus :: rx where \<comment> \<open>\<open>.+\<close> and \<open>[^\n]+\<close>\<close>
  "any_plus = Rep 1 (\<lambda>c. c \<noteq> 0xA)"

definition three_digits :: rx where \<comment> \<open>\<open>\d{3}\<close>\<close>
  "three_digits = seqs [digit, digit, digit]"

definition scene_break :: ustr where \<comment> \<open>'* * *'\<close>
  "scene_break = [0x2A, 0x20, 0x2A, 0x20, 0x2A]"

text \<open>The names of the known patterns; U+D654, U+8A71, U+7B2C and U+C81C are the episode words.\<close>

definition n_hash_n_hwa :: ustr where
  "n_hash_n_hwa = [0x23, 0x4E, 0xD654]"

definition n_dollar_n_hwa :: ustr where
  "n_dollar_n_hwa = [0x24, 0x4E, 0xD654]"

definition n_dollar_nnn :: ustr where \<comment> \<open>'\$NNN'\<close>
  "n_dollar_nnn = [0x24, 0x4E, 0x4E, 0x4E]"

definition n_break_nnn :: ustr where \<comment> \<open>'* * *\$NNN'\<close>
  "n_break_nnn = [0x2A, 0x20, 0x2A, 0x20, 0x2A, 0x24, 0x4E, 0x4E, 0x4E]"

definition n_combined :: ustr where \<comment> \<open>'\$NNN+* * *\$NNN'\<close>
  "n_combined =
     [0x24, 0x4E, 0x4E, 0x4E, 0x2B, 0x2A, 0x20, 0x2A, 0x20, 0x2A, 0x24, 0x4E, 0x4E, 0x4E]"

definition n_dai_n_wa :: ustr where
  "n_dai_n_wa = [0x7B2C, 0x4E, 0x8A71]"

definition n_je_n_hwa :: ustr where
  "n_je_n_hwa = [0xC81C, 0x4E, 0xD654]"

definition n_title_n :: ustr where \<comment> \<open>'N. Title (N)'\<close>
  "n_title_n = [0x4E, 0x2E, 0x20, 0x54, 0x69, 0x74, 0x6C, 0x65, 0x20, 0x28, 0x4E, 0x29]"

definition n_nn_title :: ustr where \<comment> \<open>'NN. Title'\<close>
  "n_nn_title = [0x4E, 0x4E, 0x2E, 0x20, 0x54, 0x69, 0x74, 0x6C, 0x65]"

definition n_slashes :: ustr where \<comment> \<open>'//N'\<close>
  "n_slashes = [0x2F, 0x2F, 0x4E]"

definition n_inline :: ustr where \<comment> \<open>'\$NNN (inline)'\<close>
  "n_inline = [0x24, 0x4E, 0x4E, 0x4E, 0x20, 0x28, 0x69, 0x6E, 0x6C, 0x69, 0x6E, 0x65, 0x29]"

text \<open>
  \<open>KNOWN_PATTERNS\<close>, in the order of the dict, each expression with its source text:
  \<^verbatim>\<open>^#(\d+)H\s*$\<close>, \<^verbatim>\<open>^\$(\d+)H\s*$\<close>, \<^verbatim>\<open>^\$(\d{3})\<close>, \<^verbatim>\<open>^\* \* \*\$(\d{3})\<close>,
  \<^verbatim>\<open>^(?:\* \* \*)?\$(\d{3})\<close>, \<^verbatim>\<open>^D(\d+)W\s*$\<close>, \<^verbatim>\<open>^J(\d+)H\s*$\<close>,
  \<^verbatim>\<open>^(\d+)\. .+ \(\d+\)\<close>, \<^verbatim>\<open>^(\d+)\. .+\<close> and \<^verbatim>\<open>^//(\d+)\s*$\<close>, where H, W, D and J
  stand for U+D654, U+8A71, U+7B2C and U+C81C.
\<close>

definition known :: "ustr \<Rightarrow> rx \<Rightarrow> regex" where
  "known src r = \<lparr>rx_source = src, rx_matcher = Some (re_match r)\<rparr>"

definition rx_hash_n_hwa :: rx where
  "rx_hash_n_hwa = seqs [Bol, Chr 0x23, Grp digits, Chr 0xD654, spaces, Eol]"

definition rx_dollar_n_hwa :: rx where
  "rx_dollar_n_hwa = seqs [Bol, Chr 0x24, Grp digits, Chr 0xD654, spaces, Eol]"

definition rx_dollar_nnn :: rx where
  "rx_dollar_nnn = seqs [Bol, Chr 0x24, Grp three_digits]"

definition rx_break_nnn :: rx where
  "rx_break_nnn = seqs [Bol, lit scene_break, Chr 0x24, Grp three_digits]"

definition rx_combined :: rx where
  "rx_combined = seqs [Bol, Opt (lit scene_break), Chr 0x24, Grp three_digits]"

definition rx_dai_n_wa :: rx where
  "rx_dai_n_wa = seqs [Bol, Chr 0x7B2C, Grp digits, Chr 0x8A71, spaces, Eol]"

definition rx_je_n_hwa :: rx where
  "rx_je_n_hwa = seqs [Bol, Chr 0xC81C, Grp digits, Chr 0xD654, spaces, Eol]"

definition rx_title_n :: rx where
  "rx_title_n =
     seqs [Bol, Grp digits, Chr 0x2E, Chr 0x20, any_plus, Chr 0x20, Chr 0x28, digits, Chr 0x29]"

definition rx_nn_title :: rx where
  "rx_nn_title = seqs [Bol, Grp digits, Chr 0x2E, Chr 0x20, any_plus]"

definition rx_slashes :: rx where
  "rx_slashes = seqs [Bol, Chr 0x2F, Chr 0x2F, Grp digits, spaces, Eol]"

definition KNOWN_PATTERNS :: "(ustr \<times> regex) list" where
  "KNOWN_PATTERNS =
     [(n_hash_n_hwa,
       known [0x5E, 0x23, 0x28, 0x5C, 0x64, 0x2B, 0x29, 0xD654, 0x5C, 0x73, 0x2A, 0x24]
         rx_hash_n_hwa),
      (n_dollar_n_hwa,
       known [0x5E, 0x5C, 0x24, 0x28, 0x5C, 0x64, 0x2B, 0x29, 0xD654, 0x5C, 0x73, 0x2A, 0x24]
         rx_dollar_n_hwa),
      (n_dollar_nnn,
       known [0x5E, 0x5C, 0x24, 0x28, 0x5C, 0x64, 0x7B, 0x33, 0x7D, 0x29] rx_dollar_nnn),
      (n_break_nnn,
       known [0x5E, 0x5C, 0x2A, 0x20, 0x5C, 0x2A, 0x20, 0x5C, 0x2A, 0x5C, 0x24, 0x28, 0x5C,
              0x64, 0x7B, 0x33, 0x7D, 0x29] rx_break_nnn),
      (n_combined,
       known [0x5E, 0x28, 0x3F, 0x3A, 0x5C, 0x2A, 0x20, 0x5C, 0x2A, 0x20, 0x5C, 0x2A, 0x29,
              0x3F, 0x5C, 0x24, 0x28, 0x5C, 0x64, 0x7B, 0x33, 0x7D, 0x29] rx_combined),
      (n_dai_n_wa,
       known [0x5E, 0x7B2C, 0x28, 0x5C, 0x64, 0x2B, 0x29, 0x8A71, 0x5C, 0x73, 0x2A, 0x24]
         rx_dai_n_wa),
      (n_je_n_hwa,
       known [0x5E, 0xC81C, 0x28, 0x5C, 0x64, 0x2B, 0x29, 0xD654, 0x5C, 0x73, 0x2A, 0x24]
         rx_je_n_hwa),
      (n_title_n,
       known [0x5E, 0x28, 0x5C, 0x64, 0x2B, 0x29, 0x5C, 0x2E, 0x20, 0x2E, 0x2B, 0x20, 0x5C,
              0x28, 0x5C, 0x64, 0x2B, 0x5C, 0x29] rx_title_n),
      (n_nn_title,
       known [0x5E, 0x28, 0x5C, 0x64, 0x2B, 0x29, 0x5C, 0x2E, 0x20, 0x2E, 0x2B] rx_nn_title),
      (n_slashes,
       known [0x5E, 0x2F, 0x2F, 0x28, 0x5C, 0x64, 0x2B, 0x29, 0x5C, 0x73, 0x2A, 0x24]
         rx_slashes)]"

text \<open>\<open>INLINE_EPISODE_PATTERN\<close>, \<^verbatim>\<open>\$(\d{3})\<close>.\<close>

definition rx_inline :: rx where
  "rx_inline = seqs [Chr 0x24, Grp three_digits]"

definition INLINE_EPISODE_PATTERN :: regex where
  "INLINE_EPISODE_PATTERN =
     known [0x5C, 0x24, 0x28, 0x5C, 0x64, 0x7B, 0x33, 0x7D, 0x29] rx_inline"

text \<open>
  \<open>TRAILING_EPISODE_PATTERNS\<close>, each starting with \<^verbatim>\<open>\n\s*\<close>: \<^verbatim>\<open>#\d+H\s*$\<close>,
  \<^verbatim>\<open>\$\d{3}\s*$\<close>, \<^verbatim>\<open>\* \* \*\$\d{3}\<close>, \<^verbatim>\<open>\* \* \*\s*$\<close>, \<^verbatim>\<open>D\d+W\s*$\<close>, \<^verbatim>\<open>J\d+H\s*$\<close>,
  \<^verbatim>\<open>\d+H\s*$\<close>, \<^verbatim>\<open>//\d+\s*$\<close> and \<^verbatim>\<open>\d+\.\s*[^\n]+$\<close>.
\<close>

definition trailing :: "rx list \<Rightarrow> rx" where
  "trailing rs = seqs ([Chr 0xA, spaces] @ rs)"

definition TRAILING_EPISODE_PATTERNS :: "rx list" where
  "TRAILING_EPISODE_PATTERNS =
     [trailing [Chr 0x23, digits, Chr 0xD654, spaces, Eol],
      trailing [Chr 0x24, three_digits, spaces, Eol],
      trailing [lit scene_break, Chr 0x24, three_digits],
      trailing [lit scene_break, spaces, Eol],
      trailing [Chr 0x7B2C, digits, Chr 0x8A71, spaces, Eol],
      trailing [Chr 0xC81C, digits, Chr 0xD654, spaces, Eol],
      trailing [digits, Chr 0xD654, spaces, Eol],
      trailing [Chr 0x2F, Chr 0x2F, digits, spaces, Eol],
      trailing [digits, Chr 0x2E, spaces, any_plus, Eol]]"

text \<open>
  \<open>clean_trailing_episode_marker\<close>: the first pattern of the list that is found decides,
  and only one marker is removed.
\<close>

fun remove_first_marker :: "rx list \<Rightarrow> ustr \<Rightarrow> ustr" where
  "remove_first_marker [] cleaned = cleaned"
| "remove_first_marker (pattern # rest) cleaned =
     (case re_search pattern cleaned of
        Some m \<Rightarrow> rstrip (take (m_start m) cleaned)
      | None \<Rightarrow> remove_first_marker rest cleaned)"

definition clean_trailing_episode_marker :: "ustr \<Rightarrow> ustr" where
  "clean_trailing_episode_marker content =
     remove_first_marker TRAILING_EPISODE_PATTERNS (rstrip content)"

subsection \<open>Episodes and pattern information\<close>

record episode =
  e_number :: int
  e_title :: "ustr option"
  e_content :: ustr

text \<open>One entry of the list \<open>patterns\<close>.\<close>

record pattern =
  p_separator_pattern :: ustr
  p_pattern_examples :: "ustr list"
  p_pattern_regex :: regex

text \<open>
  The dict \<open>pattern_info\<close>, as far as the splitter reads it; a field is \<open>None\<close> when
  the key is missing (or null), \<open>pi_pattern_examples\<close> is empty then. \<open>pi_epilogue\<close> is \<open>special_episodes.get('epilogue')\<close>. The
  keys \<open>language\<close> and \<open>notes\<close> are only copied to the output or never read, and are left
  out. The values have the types that the prompt asks for: the confidence and the estimate
  are integers.
\<close>

record pattern_info =
  pi_is_multi_episode :: "bool option"
  pi_patterns :: "pattern list option"
  pi_primary_pattern :: "ustr option"
  pi_separator_pattern :: "ustr option"
  pi_pattern_examples :: "ustr list"
  pi_pattern_regex :: "regex option"
  pi_estimated_episodes :: "int option"
  pi_confidence :: int
  pi_epilogue :: "ustr option"
  pi_use_inline_split :: bool

subsection \<open>Direct detection of a known pattern\<close>

text \<open>
  The matches of one expression over the lines: each line is stripped, freed of byte
  order marks on the left and matched from its start; \<open>match.group(0)\<close> is kept.
\<close>

definition line_matches :: "regex \<Rightarrow> ustr list \<Rightarrow> ustr list" where
  "line_matches re lines =
     (case rx_matcher re of
        None \<Rightarrow> []
      | Some compiled \<Rightarrow>
          concat (map (\<lambda>line.
                    (let line_stripped = lstrip_bom (strip line)
                     in case compiled line_stripped of
                          None \<Rightarrow> []
                        | Some m \<Rightarrow> [group0 line_stripped m])) lines))"

text \<open>
  \<open>pattern_counts\<close> and \<open>pattern_examples\<close> together: the patterns with at least one
  match, in the order of \<open>KNOWN_PATTERNS\<close>, each with its number of matches and its first
  five matches.
\<close>

fun count_patterns :: "(ustr \<times> regex) list \<Rightarrow> ustr list \<Rightarrow> (ustr \<times> nat \<times> ustr list) list" where
  "count_patterns [] lines = []"
| "count_patterns ((pattern_name, pattern_regex) # rest) lines =
     (let matches = line_matches pattern_regex lines
      in if matches \<noteq> []
         then (pattern_name, length matches, take 5 matches) # count_patterns rest lines
         else count_patterns rest lines)"

text \<open>\<open>max(pattern_counts, key=pattern_counts.get)\<close>: the first key with the largest count.\<close>

fun best_of :: "(ustr \<times> nat \<times> ustr list) \<Rightarrow> (ustr \<times> nat \<times> ustr list) list \<Rightarrow> (ustr \<times> nat \<times> ustr list)" where
  "best_of b [] = b"
| "best_of b (c # cs) = best_of (if fst (snd b) < fst (snd c) then c else b) cs"

definition direct_info :: "ustr \<Rightarrow> ustr list \<Rightarrow> regex \<Rightarrow> nat \<Rightarrow> bool \<Rightarrow> pattern_info" where
  "direct_info name examples re estimated inline =
     \<lparr>pi_is_multi_episode = Some True,
      pi_patterns = Some [\<lparr>p_separator_pattern = name, p_pattern_examples = examples,
                           p_pattern_regex = re\<rparr>],
      pi_primary_pattern = Some name,
      pi_separator_pattern = None,
      pi_pattern_examples = [],
      pi_pattern_regex = Some re,
      pi_estimated_episodes = Some (int estimated),
      pi_confidence = 95,
      pi_epilogue = None,
      pi_use_inline_split = inline\<rparr>"

text \<open>
  \<open>_detect_known_pattern_directly\<close>. The test \<open>inline_count > max_line_start_count * 1.5\<close>
  is exact in floating point (1.5 and the counts are representable) and is written
  \<open>3 * max < 2 * inline_count\<close>. The inline numbers are read from three decimal digits, so
  \<open>int\<close> does not raise on them.
\<close>

definition detect_known_pattern_directly :: "ustr \<Rightarrow> pattern_info option" where
  "detect_known_pattern_directly text =
     (let lines = split_lines text;
          counted = count_patterns KNOWN_PATTERNS lines;
          inline_matches = findall_group rx_inline text;
          inline_count = length (remdups (map decimal_number inline_matches));
          max_line_start_count = fold max (map (\<lambda>c. fst (snd c)) counted) 0
      in if inline_matches \<noteq> [] \<and> 3 * max_line_start_count < 2 * inline_count then
           Some (direct_info n_inline (map (\<lambda>m. 0x24 # m) (take 5 inline_matches))
                   INLINE_EPISODE_PATTERN inline_count True)
         else
           (case counted of
              [] \<Rightarrow> None
            | c # cs \<Rightarrow>
                (case (map_of counted n_dollar_nnn, map_of counted n_break_nnn) of
                   (Some (count_a, examples_a), Some (count_b, examples_b)) \<Rightarrow>
                     Some (direct_info n_combined (take 5 (examples_a @ examples_b))
                             (the_default (known [] Eps) (map_of KNOWN_PATTERNS n_combined))
                             (count_a + count_b) False)
                 | _ \<Rightarrow>
                     (let best = best_of c cs;
                          best_pattern = fst best;
                          count = fst (snd best)
                      in if count < 3 then None
                         else Some (direct_info best_pattern (snd (snd best))
                                      (the_default (known [] Eps) (map_of KNOWN_PATTERNS best_pattern))
                                      count False)))))"

subsection \<open>What the splitter takes from outside\<close>

text \<open>
  \<open>lower\<close> is \<open>str.lower\<close>, the case mapping of the Unicode database. The other three
  are answers of the backend: \<open>title_reply\<close> is the list \<open>result.get('results', [])\<close> of the
  title request for the given episodes, or \<open>None\<close> when the request or the parsing of its
  answer raised; \<open>detect_reply\<close> is the parsed answer of the pattern request for a text, or
  \<open>None\<close> when the request raised, the answer was not JSON, or it lacked \<open>confidence\<close> (read by
  the logging statement); \<open>llm_split\<close> is the method \<open>_llm_split\<close>, the split made by the
  backend, with its result or the exception that leaves it.
\<close>

record title_item =
  ti_idx :: "int option"
  ti_title :: "ustr option"
  ti_title_line_idx :: "int option"

record env =
  lower :: "ustr \<Rightarrow> ustr"
  title_reply :: "episode list \<Rightarrow> title_item list option"
  detect_reply :: "ustr \<Rightarrow> pattern_info option"
  llm_split :: "ustr \<Rightarrow> pattern_info \<Rightarrow> py_error + episode list"

subsection \<open>Titles and special episodes\<close>

text \<open>\<open>episodes[idx]\<close> with Python's negative indices; \<open>None\<close> is \<open>IndexError\<close>.\<close>

definition py_index :: "'a list \<Rightarrow> int \<Rightarrow> nat option" where
  "py_index xs i =
     (if 0 \<le> i then (if nat i < length xs then Some (nat i) else None)
      else if nat (- i) \<le> length xs then Some (length xs - nat (- i))
      else None)"

text \<open>The line whose number among the non-blank lines is \<open>title_line_idx\<close> is emptied.\<close>

fun blank_title_line :: "int \<Rightarrow> nat \<Rightarrow> ustr list \<Rightarrow> ustr list" where
  "blank_title_line title_line_idx non_empty_count [] = []"
| "blank_title_line title_line_idx non_empty_count (line # lines) =
     (if strip line \<noteq> [] then
        (if int non_empty_count = title_line_idx then [] # lines
         else line # blank_title_line title_line_idx (non_empty_count + 1) lines)
      else line # blank_title_line title_line_idx non_empty_count lines)"

definition set_title :: "ustr \<Rightarrow> int \<Rightarrow> episode \<Rightarrow> episode" where
  "set_title title title_line_idx ep =
     (let lines = blank_title_line title_line_idx 0 (split_lines (e_content ep));
          lines' = dropWhile (\<lambda>l. strip l = []) lines
      in ep\<lparr>e_title := Some title, e_content := strip (join_lines lines')\<rparr>)"

text \<open>
  The loop over the answer. An index out of range raises \<open>IndexError\<close> inside the
  \<open>try\<close>, and the episodes are returned as changed so far.
\<close>

fun apply_titles :: "title_item list \<Rightarrow> episode list \<Rightarrow> episode list" where
  "apply_titles [] episodes = episodes"
| "apply_titles (item # items) episodes =
     (case (ti_idx item, ti_title_line_idx item) of
        (Some idx, Some title_line_idx) \<Rightarrow>
          if truthy (ti_title item) then
            (case py_index episodes idx of
               None \<Rightarrow> episodes
             | Some k \<Rightarrow>
                 apply_titles items
                   (episodes[k := set_title (the_default [] (ti_title item)) title_line_idx
                                    (episodes ! k)]))
          else apply_titles items episodes
      | _ \<Rightarrow> apply_titles items episodes)"

definition needs_title :: "episode \<Rightarrow> bool" where
  "needs_title ep = (\<not> truthy (e_title ep) \<and> strip (e_content ep) \<noteq> [])"

definition extract_titles_from_episodes :: "env \<Rightarrow> episode list \<Rightarrow> episode list" where
  "extract_titles_from_episodes env episodes =
     (if filter needs_title episodes = [] then episodes
      else (case title_reply env episodes of
              None \<Rightarrow> episodes
            | Some items \<Rightarrow> apply_titles items episodes))"

text \<open>\<open>_handle_special_episodes\<close>: only the epilogue is handled.\<close>

definition handle_special_episodes :: "env \<Rightarrow> episode list \<Rightarrow> pattern_info \<Rightarrow> episode list" where
  "handle_special_episodes env episodes pattern_info =
     (if episodes \<noteq> [] \<and> truthy (pi_epilogue pattern_info) then
        (let epilogue = the_default [] (pi_epilogue pattern_info)
         in if py_in (lower env epilogue) (lower env (take 100 (e_content (last episodes))))
            then butlast episodes @ [(last episodes)\<lparr>e_title := Some epilogue\<rparr>]
            else episodes)
      else episodes)"

subsection \<open>Splitting by lines\<close>

record split_state =
  ss_episodes :: "episode list"
  ss_current_episode :: "int option"
  ss_current_content :: "ustr list"

definition new_episode :: "int \<Rightarrow> ustr \<Rightarrow> episode" where
  "new_episode n c = \<lparr>e_number = n, e_title = None, e_content = c\<rparr>"

text \<open>\<open>Save previous episode\<close>: the content is joined, stripped and cleaned.\<close>

definition save_previous :: "split_state \<Rightarrow> split_state" where
  "save_previous st =
     (case ss_current_episode st of
        None \<Rightarrow> st
      | Some n \<Rightarrow>
          st\<lparr>ss_episodes := ss_episodes st @
                [new_episode n
                   (clean_trailing_episode_marker (strip (join_lines (ss_current_content st))))]\<rparr>)"

text \<open>
  The number of the new episode: \<open>int(match.group(1))\<close>; without a group, the first run of
  digits of the matched text, and \<open>None\<close> when there is none (the code then goes on with
  \<open>continue\<close>). Only \<open>IndexError\<close> is caught: \<open>int\<close> of an unmatched group raises
  \<open>TypeError\<close>, of a text that is no number \<open>ValueError\<close>.
\<close>

definition number_of_match :: "ustr \<Rightarrow> rmatch \<Rightarrow> py_error + int option" where
  "number_of_match line_stripped m =
     (case group1 line_stripped m of
        Inl e \<Rightarrow>
          (case findall digits (group0 line_stripped m) of
             [] \<Rightarrow> Inr None
           | d # ds \<Rightarrow> (case py_int d of Inl e' \<Rightarrow> Inl e' | Inr n \<Rightarrow> Inr (Some n)))
      | Inr None \<Rightarrow> Inl TypeError
      | Inr (Some g) \<Rightarrow> (case py_int g of Inl e' \<Rightarrow> Inl e' | Inr n \<Rightarrow> Inr (Some n)))"

definition start_episode :: "int \<Rightarrow> ustr \<Rightarrow> rmatch \<Rightarrow> split_state \<Rightarrow> split_state" where
  "start_episode n line_stripped m st =
     (let remaining_text = strip (drop (m_end m) line_stripped)
      in st\<lparr>ss_current_episode := Some n,
            ss_current_content := (if remaining_text \<noteq> [] then [remaining_text] else [])\<rparr>)"

definition accumulate :: "ustr \<Rightarrow> split_state \<Rightarrow> split_state" where
  "accumulate line st =
     (if ss_current_episode st \<noteq> None
      then st\<lparr>ss_current_content := ss_current_content st @ [line]\<rparr>
      else st)"

text \<open>One line of the loop of \<open>_regex_split\<close>.\<close>

definition regex_split_step ::
  "(ustr \<Rightarrow> rmatch option) \<Rightarrow> ustr \<Rightarrow> split_state \<Rightarrow> py_error + split_state" where
  "regex_split_step compiled line st =
     (let line_stripped = lstrip_bom (strip line)
      in case compiled line_stripped of
           None \<Rightarrow> Inr (accumulate line st)
         | Some m \<Rightarrow>
             (case number_of_match line_stripped m of
                Inl e \<Rightarrow> Inl e
              | Inr None \<Rightarrow> Inr (save_previous st)
              | Inr (Some n) \<Rightarrow> Inr (start_episode n line_stripped m (save_previous st))))"

fun regex_split_loop ::
  "(ustr \<Rightarrow> rmatch option) \<Rightarrow> ustr list \<Rightarrow> split_state \<Rightarrow> py_error + split_state" where
  "regex_split_loop compiled [] st = Inr st"
| "regex_split_loop compiled (line # lines) st =
     (case regex_split_step compiled line st of
        Inl e \<Rightarrow> Inl e
      | Inr st' \<Rightarrow> regex_split_loop compiled lines st')"

text \<open>
  One line of the loop of \<open>_multi_pattern_regex_split\<close>: the patterns are tried in
  order; a match whose number cannot be read has saved the previous episode and lets the
  next pattern try. The flag is \<open>matched\<close>.
\<close>

fun try_patterns ::
  "(ustr \<Rightarrow> rmatch option) list \<Rightarrow> ustr \<Rightarrow> split_state \<Rightarrow> py_error + (bool \<times> split_state)" where
  "try_patterns [] line_stripped st = Inr (False, st)"
| "try_patterns (compiled # rest) line_stripped st =
     (case compiled line_stripped of
        None \<Rightarrow> try_patterns rest line_stripped st
      | Some m \<Rightarrow>
          (case number_of_match line_stripped m of
             Inl e \<Rightarrow> Inl e
           | Inr None \<Rightarrow> try_patterns rest line_stripped (save_previous st)
           | Inr (Some n) \<Rightarrow> Inr (True, start_episode n line_stripped m (save_previous st))))"

definition multi_split_step ::
  "(ustr \<Rightarrow> rmatch option) list \<Rightarrow> ustr \<Rightarrow> split_state \<Rightarrow> py_error + split_state" where
  "multi_split_step compiled_patterns line st =
     (case try_patterns compiled_patterns (lstrip_bom (strip line)) st of
        Inl e \<Rightarrow> Inl e
      | Inr (matched, st') \<Rightarrow> Inr (if matched then st' else accumulate line st'))"

fun multi_split_loop ::
  "(ustr \<Rightarrow> rmatch option) list \<Rightarrow> ustr list \<Rightarrow> split_state \<Rightarrow> py_error + split_state" where
  "multi_split_loop compiled_patterns [] st = Inr st"
| "multi_split_loop compiled_patterns (line # lines) st =
     (case multi_split_step compiled_patterns line st of
        Inl e \<Rightarrow> Inl e
      | Inr st' \<Rightarrow> multi_split_loop compiled_patterns lines st')"

definition split_init :: split_state where
  "split_init = \<lparr>ss_episodes = [], ss_current_episode = None, ss_current_content = []\<rparr>"

definition single_episode :: "ustr \<Rightarrow> episode list" where
  "single_episode text = [new_episode 1 text]"

text \<open>\<open>ep['content'].strip()\<close> is true: the content is not blank.\<close>

definition has_content :: "episode \<Rightarrow> bool" where
  "has_content ep = (strip (e_content ep) \<noteq> [])"

text \<open>
  \<open>_multi_pattern_regex_split\<close>. The names U+D654 and U+8A71 are the episode words;
  \<open>s_plain_number\<close> is the source text \<^verbatim>\<open>^(\d+)$\<close>.
\<close>

definition s_plain_number :: ustr where
  "s_plain_number = [0x5E, 0x28, 0x5C, 0x64, 0x2B, 0x29, 0x24]"

definition is_specific :: "pattern \<Rightarrow> bool" where
  "is_specific p =
     (let sp = p_separator_pattern p
      in startswith [0x24] sp \<or> startswith [0x23] sp \<or> startswith [0x2F, 0x2F] sp \<or>
         py_in [0xD654] sp \<or> py_in [0x8A71] sp \<or>
         py_in [0x43, 0x68, 0x61, 0x70, 0x74, 0x65, 0x72] sp \<or>
         py_in [0x45, 0x70, 0x69, 0x73, 0x6F, 0x64, 0x65] sp)"

definition specific_patterns :: "pattern list \<Rightarrow> pattern list" where
  "specific_patterns patterns_list =
     (if list_ex is_specific patterns_list then
        (let filtered_patterns =
               filter (\<lambda>p. rx_source (p_pattern_regex p) \<noteq> s_plain_number \<and>
                            p_separator_pattern p \<noteq> [0x4E]) patterns_list
         in if filtered_patterns \<noteq> [] then filtered_patterns else patterns_list)
      else patterns_list)"

definition compile_all :: "pattern list \<Rightarrow> (ustr \<Rightarrow> rmatch option) list" where
  "compile_all patterns_list =
     concat (map (\<lambda>p. case rx_matcher (p_pattern_regex p) of None \<Rightarrow> [] | Some c \<Rightarrow> [c])
                 patterns_list)"

definition multi_pattern_regex_split ::
  "env \<Rightarrow> ustr \<Rightarrow> pattern_info \<Rightarrow> py_error + episode list" where
  "multi_pattern_regex_split env text pattern_info =
     (let patterns_list = the_default [] (pi_patterns pattern_info)
      in if patterns_list = [] then llm_split env text pattern_info
         else
           (let compiled_patterns = compile_all (specific_patterns patterns_list)
            in if compiled_patterns = [] then llm_split env text pattern_info
               else
                 (let text' = lstrip_bom text
                  in case multi_split_loop compiled_patterns (split_lines text') split_init of
                       Inl e \<Rightarrow> Inl e
                     | Inr st \<Rightarrow>
                         (let episodes = ss_episodes (save_previous st)
                          in if episodes = [] then Inr (single_episode text')
                             else Inr (extract_titles_from_episodes env
                                         (handle_special_episodes env
                                            (filter has_content episodes) pattern_info))))))"

text \<open>
  \<open>_regex_split\<close>. With more than one pattern it hands over to the split above; without
  an expression (none, or an empty source text) to the backend. The last episode is
  saved only if lines were collected for it. This path does not filter its episodes.
\<close>

definition chosen_regex :: "pattern_info \<Rightarrow> regex option" where
  "chosen_regex pattern_info =
     (case pi_patterns pattern_info of
        Some (p # ps) \<Rightarrow> Some (p_pattern_regex p)
      | _ \<Rightarrow> pi_pattern_regex pattern_info)"

definition regex_split :: "env \<Rightarrow> ustr \<Rightarrow> pattern_info \<Rightarrow> py_error + episode list" where
  "regex_split env text pattern_info =
     (if 1 < length (the_default [] (pi_patterns pattern_info))
      then multi_pattern_regex_split env text pattern_info
      else
        (case chosen_regex pattern_info of
           None \<Rightarrow> llm_split env text pattern_info
         | Some re \<Rightarrow>
             if rx_source re = [] then llm_split env text pattern_info
             else
               (case rx_matcher re of
                  None \<Rightarrow> Inl ReError
                | Some compiled \<Rightarrow>
                    (let text' = lstrip_bom text
                     in case regex_split_loop compiled (split_lines text') split_init of
                          Inl e \<Rightarrow> Inl e
                        | Inr st \<Rightarrow>
                            (let episodes =
                                   ss_episodes (if ss_current_content st \<noteq> []
                                                then save_previous st else st)
                             in if episodes = [] then Inr (single_episode text')
                                else Inr (extract_titles_from_episodes env
                                            (handle_special_episodes env episodes
                                               pattern_info)))))))"

subsection \<open>Splitting at inline markers\<close>

text \<open>
  \<open>text.rfind(sub, start, end)\<close>: the last place from \<open>start\<close> where \<open>sub\<close> occurs and
  ends by \<open>end\<close>.
\<close>

fun rfind_down :: "ustr \<Rightarrow> ustr \<Rightarrow> nat \<Rightarrow> nat \<Rightarrow> nat option" where
  "rfind_down sub s start 0 = (if start = 0 \<and> startswith sub s then Some 0 else None)"
| "rfind_down sub s start (Suc i) =
     (if Suc i < start then None
      else if startswith sub (drop (Suc i) s) then Some (Suc i)
      else rfind_down sub s start i)"

definition py_rfind :: "ustr \<Rightarrow> ustr \<Rightarrow> nat \<Rightarrow> nat \<Rightarrow> nat option" where
  "py_rfind sub s start end' =
     (let e = min end' (length s)
      in if e < start + length sub then None
         else rfind_down sub (take e s) start (e - length sub))"

text \<open>The expressions \<^verbatim>\<open>(?:\* \* \*)?\$(\d{3})\<close> and \<^verbatim>\<open>\s*\* \* \*\s*$\<close>.\<close>

definition rx_inline_split :: rx where
  "rx_inline_split = seqs [Opt (lit scene_break), Chr 0x24, Grp three_digits]"

definition rx_break_at_end :: rx where
  "rx_break_at_end = seqs [spaces, lit scene_break, spaces, Eol]"

definition inline_content :: "ustr \<Rightarrow> rmatch \<Rightarrow> rmatch option \<Rightarrow> ustr" where
  "inline_content text m next_match =
     (let content_start = m_end m;
          content_end =
            (case next_match of
               None \<Rightarrow> length text
             | Some nm \<Rightarrow>
                 (let prefix_check = slice text (m_start nm - 10) (m_start nm)
                  in if py_in scene_break prefix_check then
                       (case py_rfind scene_break text content_start (m_start nm) of
                          Some asterisk_pos \<Rightarrow> asterisk_pos
                        | None \<Rightarrow> m_start nm)
                     else m_start nm));
          content = clean_trailing_episode_marker (strip (slice text content_start content_end))
      in strip (re_sub_empty rx_break_at_end content))"

fun inline_episodes :: "ustr \<Rightarrow> rmatch list \<Rightarrow> episode list" where
  "inline_episodes text [] = []"
| "inline_episodes text [m] =
     [new_episode (int (decimal_number (group1_text text m))) (inline_content text m None)]"
| "inline_episodes text (m # nm # ms) =
     new_episode (int (decimal_number (group1_text text m))) (inline_content text m (Some nm))
       # inline_episodes text (nm # ms)"

definition inline_split :: "env \<Rightarrow> ustr \<Rightarrow> pattern_info \<Rightarrow> episode list" where
  "inline_split env text pattern_info =
     (let text' = lstrip_bom text;
          matches = finditer rx_inline_split text'
      in if matches = [] then single_episode text'
         else extract_titles_from_episodes env
                (handle_special_episodes env
                   (filter has_content (inline_episodes text' matches)) pattern_info))"

subsection \<open>Validation and the main method\<close>

text \<open>
  The four checks of \<open>_validate_split\<close>. Its three percentages are floating-point
  quotients of integers compared with 20, with a tenth of the episode count and with 80;
  they are written as the comparisons of integers that they decide (for counts below
  \<open>2^40\<close> the rounded quotients fall on the same side). A text of length 0 has
  \<open>preserved_pct = 0\<close>. The warnings are f-strings; they are kept as tags.
\<close>

datatype split_warning =
    CountMismatch int nat
  | LargeGap int int
  | VeryShort nat
  | ContentLoss

fun large_gaps :: "int list \<Rightarrow> split_warning list" where
  "large_gaps (a # b # rest) =
     (if 2 < b - a then LargeGap a b # large_gaps (b # rest) else large_gaps (b # rest))"
| "large_gaps numbers = []"

record validation =
  v_confidence :: int
  v_warnings :: "split_warning list"

definition validate_split :: "episode list \<Rightarrow> pattern_info \<Rightarrow> ustr \<Rightarrow> validation" where
  "validate_split episodes pattern_info original_text =
     (let estimated = the_default (int (length episodes)) (pi_estimated_episodes pattern_info);
          actual = length episodes;
          w1 = (if 0 < estimated \<and> 20 * estimated < 100 * \<bar>int actual - estimated\<bar>
                then [CountMismatch estimated actual] else []);
          w2 = large_gaps (map e_number episodes);
          very_short_count =
            length (filter (\<lambda>ep. length (py_split_ws (e_content ep)) < 20) episodes);
          w3 = (if length episodes < 10 * very_short_count then [VeryShort very_short_count] else []);
          total_chars = sum_list (map (\<lambda>ep. length (e_content ep)) episodes);
          original_chars = length original_text;
          w4 = (if original_chars = 0 \<or> 100 * total_chars < 80 * original_chars
                then [ContentLoss] else []);
          confidence = 100 - 10 * int (length w1) - 5 * int (length w2) - 5 * int (length w3)
                         - 10 * int (length w4)
      in \<lparr>v_confidence = max confidence 70, v_warnings = w1 @ w2 @ w3 @ w4\<rparr>)"

text \<open>
  \<open>_detect_pattern\<close>: direct detection first, then the backend. An answer in the old
  format (no \<open>patterns\<close>) is converted, which needs \<open>separator_pattern\<close>; an exception
  anywhere gives the single-episode fallback.
\<close>

definition empty_regex :: regex where
  "empty_regex = \<lparr>rx_source = [], rx_matcher = Some (re_match Eps)\<rparr>"

definition fallback_info :: pattern_info where
  "fallback_info =
     \<lparr>pi_is_multi_episode = Some False, pi_patterns = None, pi_primary_pattern = None,
      pi_separator_pattern = None, pi_pattern_examples = [], pi_pattern_regex = None,
      pi_estimated_episodes = Some 1, pi_confidence = 50, pi_epilogue = None,
      pi_use_inline_split = False\<rparr>"

definition detect_pattern :: "env \<Rightarrow> ustr \<Rightarrow> pattern_info" where
  "detect_pattern env text =
     (case detect_known_pattern_directly text of
        Some direct_pattern \<Rightarrow> direct_pattern
      | None \<Rightarrow>
          (case detect_reply env text of
             None \<Rightarrow> fallback_info
           | Some pattern_info \<Rightarrow>
               if pi_patterns pattern_info \<noteq> None then pattern_info
               else (case pi_separator_pattern pattern_info of
                       None \<Rightarrow> fallback_info
                     | Some sp \<Rightarrow>
                         pattern_info
                           \<lparr>pi_patterns :=
                              Some [\<lparr>p_separator_pattern = sp,
                                     p_pattern_examples = pi_pattern_examples pattern_info,
                                     p_pattern_regex =
                                       the_default empty_regex (pi_pattern_regex pattern_info)\<rparr>],
                            pi_primary_pattern := Some sp\<rparr>)))"

datatype split_method = Single | Inline | Regex | Llm

record split_result =
  r_episodes :: "episode list"
  r_is_multi_episode :: bool
  r_method :: split_method
  r_total_episodes :: nat
  r_confidence :: int
  r_warnings :: "split_warning list"

text \<open>
  \<open>int(pattern_info['confidence'] * 0.9)\<close>: the product is truncated towards zero; for
  an integer confidence it is the integer quotient of nine times the confidence by ten.
\<close>

definition nine_tenths :: "int \<Rightarrow> int" where
  "nine_tenths c = (if 0 \<le> c then (9 * c) div 10 else - ((9 * (- c)) div 10))"

definition is_known :: "ustr option \<Rightarrow> bool" where
  "is_known name = (case name of None \<Rightarrow> False | Some n \<Rightarrow> n \<in> fst ` set KNOWN_PATTERNS)"

definition finish :: "ustr \<Rightarrow> pattern_info \<Rightarrow> bool \<Rightarrow> split_method \<Rightarrow> int \<Rightarrow> episode list \<Rightarrow> split_result" where
  "finish text pattern_info multi method confidence episodes =
     (let validation = validate_split episodes pattern_info text
      in \<lparr>r_episodes = episodes, r_is_multi_episode = multi, r_method = method,
          r_total_episodes = length episodes,
          r_confidence = min confidence (v_confidence validation),
          r_warnings = v_warnings validation\<rparr>)"

text \<open>\<open>process\<close>, from the detected pattern information on.\<close>

definition process_with :: "env \<Rightarrow> ustr \<Rightarrow> pattern_info \<Rightarrow> py_error + split_result" where
  "process_with env text pattern_info =
     (case pi_is_multi_episode pattern_info of
        None \<Rightarrow> Inl KeyError
      | Some False \<Rightarrow> Inr (finish text pattern_info False Single 100 (single_episode text))
      | Some True \<Rightarrow>
          if pi_use_inline_split pattern_info then
            Inr (finish text pattern_info True Inline (pi_confidence pattern_info)
                   (inline_split env text pattern_info))
          else if is_known (pi_primary_pattern pattern_info) \<or>
                  is_known (pi_separator_pattern pattern_info) then
            (case regex_split env text pattern_info of
               Inl e \<Rightarrow> Inl e
             | Inr episodes \<Rightarrow>
                 Inr (finish text pattern_info True Regex (pi_confidence pattern_info) episodes))
          else
            (case llm_split env text pattern_info of
               Inl e \<Rightarrow> Inl e
             | Inr episodes \<Rightarrow>
                 Inr (finish text pattern_info True Llm
                        (nine_tenths (pi_confidence pattern_info)) episodes)))"

definition process :: "env \<Rightarrow> ustr \<Rightarrow> py_error + split_result" where
  "process env text =
     (if text = [] then Inl ValueError
      else process_with env text (detect_pattern env text))"

subsection \<open>Inputs for the splitter\<close>

text \<open>
  The backend out of reach: every request fails. \<open>lower\<close> is the identity, which is
  \<open>str.lower\<close> on texts without cased letters.
\<close>

definition env_down :: env where
  "env_down =
     \<lparr>lower = (\<lambda>s. s), title_reply = (\<lambda>episodes. None), detect_reply = (\<lambda>text. None),
      llm_split = (\<lambda>text pattern_info. Inr [])\<rparr>"

text \<open>
  Three header lines \<open>#1H\<close>, \<open>#2H\<close>, \<open>#3H\<close> one after the other and a last line
  \<open>body\<close>.
\<close>

definition headers_then_body :: ustr where
  "headers_then_body =
     [0x23, 0x31, 0xD654, 0xA, 0x23, 0x32, 0xD654, 0xA, 0x23, 0x33, 0xD654, 0xA,
      0x62, 0x6F, 0x64, 0x79]"

text \<open>A short text without any marker: a space and \<open>abc\<close>.\<close>

definition short_text :: ustr where
  "short_text = [0x20, 0x61, 0x62, 0x63]"

text \<open>
  One header line \<open>#1H\<close> and a line \<open>abc\<close>; and a backend that answers the pattern
  request with the known pattern of that header, one estimated episode and confidence 60.
\<close>

definition one_header :: ustr where
  "one_header = [0x23, 0x31, 0xD654, 0xA, 0x61, 0x62, 0x63]"

definition unsure_info :: pattern_info where
  "unsure_info =
     \<lparr>pi_is_multi_episode = Some True,
      pi_patterns = Some [\<lparr>p_separator_pattern = n_hash_n_hwa,
                           p_pattern_examples = [[0x23, 0x31, 0xD654]],
                           p_pattern_regex =
                             known [0x5E, 0x23, 0x28, 0x5C, 0x64, 0x2B, 0x29, 0xD654, 0x5C,
                                    0x73, 0x2A, 0x24] rx_hash_n_hwa\<rparr>],
      pi_primary_pattern = Some n_hash_n_hwa, pi_separator_pattern = None,
      pi_pattern_examples = [], pi_pattern_regex = None, pi_estimated_episodes = Some 1,
      pi_confidence = 60, pi_epilogue = None, pi_use_inline_split = False\<rparr>"

definition env_unsure :: env where
  "env_unsure =
     \<lparr>lower = (\<lambda>s. s), title_reply = (\<lambda>episodes. None),
      detect_reply = (\<lambda>text. Some unsure_info),
      llm_split = (\<lambda>text pattern_info. Inr [])\<rparr>"

text \<open>The number of lines that a known pattern matches in a text.\<close>

definition match_count :: "ustr \<Rightarrow> ustr \<Rightarrow> nat" where
  "match_count name text =
     (case map_of KNOWN_PATTERNS name of
        None \<Rightarrow> 0
      | Some re \<Rightarrow> length (line_matches re (split_lines text)))"

text \<open>
  Two texts: a plain marker line followed by a decorated one
  (\<open>$001\<close>, newline, \<open>* * *$002\<close>), and three lines \<open>#1H\<close>, \<open>#2H\<close>, \<open>#3H\<close>.
\<close>

definition two_markers :: ustr where
  "two_markers =
     [0x24, 0x30, 0x30, 0x31, 0xA, 0x2A, 0x20, 0x2A, 0x20, 0x2A, 0x24, 0x30, 0x30, 0x32]"

definition three_headers :: ustr where
  "three_headers =
     [0x23, 0x31, 0xD654, 0xA, 0x23, 0x32, 0xD654, 0xA, 0x23, 0x33, 0xD654]"

text \<open>What direct detection returns on the three header lines.\<close>

definition three_headers_info :: pattern_info where
  "three_headers_info =
     direct_info n_hash_n_hwa
       [[0x23, 0x31, 0xD654], [0x23, 0x32, 0xD654], [0x23, 0x33, 0xD654]]
       (known [0x5E, 0x23, 0x28, 0x5C, 0x64, 0x2B, 0x29, 0xD654, 0x5C, 0x73, 0x2A, 0x24]
          rx_hash_n_hwa) 3 False"

section \<open>Evaluation\<close>

text \<open>The defining equations by which the simplifier runs the model on a concrete input.\<close>

lemmas string_defs =
  isspace_def isdecimal_def nd_zeros_def decimal_value_def decimal_number_def int_digits_def
  py_int_def strip_def rstrip_def lstrip_bom_def startswith_def py_find_def py_replace_def
  py_replace1_def slice_def py_split_def py_split1_def py_split_ws_def split_lines_def

lemmas regex_defs =
  match_at_def re_match_def re_search_def group0_def group1_def group1_text_def finditer_def
  findall_group_def findall_def re_sub_empty_def Chr_def seqs_def lit_def Opt_def

lemmas name_defs =
  s_korean_def s_japanese_def s_taiwanese_def s_traditional_chinese_def s_language_mixing_def
  s_glossary_mismatch_def s_untranslated_term_def s_error_def s_warning_def s_chinese_def
  s_mandarin_def

lemmas qa_defs =
  check_language_mixing_def mixing_issue_def korean_pattern_def KOREAN_ONOMATOPOEIA_def
  auto_fix_def auto_fix_step_def replace_issue_def fix_language_mixing_def fix_mixing_step_def
  map_target_def is_replacement_def is_mixing_error_def is_other_def Let_def
  normalize_language_def lookup_step_def init_validator_def SIMILAR_CHARACTERS_def
  get_similar_alternatives_def quote_arrow_def msg_untranslated_def msg_wrong_variant_def
  msg_mismatch_def untranslated_issues_def variant_issues_def similar_issues_def
  check_glossary_consistency_def validate_def msg_source_found_def msg_onomatopoeia_def

lemmas splitter_defs =
  digit_def digits_def spaces_def any_plus_def three_digits_def scene_break_def known_def
  rx_hash_n_hwa_def rx_dollar_n_hwa_def rx_dollar_nnn_def rx_break_nnn_def rx_combined_def
  rx_dai_n_wa_def rx_je_n_hwa_def rx_title_n_def rx_nn_title_def rx_slashes_def rx_inline_def
  KNOWN_PATTERNS_def INLINE_EPISODE_PATTERN_def trailing_def TRAILING_EPISODE_PATTERNS_def
  clean_trailing_episode_marker_def line_matches_def direct_info_def
  detect_known_pattern_directly_def match_count_def

lemmas pattern_names =
  n_hash_n_hwa_def n_dollar_n_hwa_def n_dollar_nnn_def n_break_nnn_def n_combined_def
  n_dai_n_wa_def n_je_n_hwa_def n_title_n_def n_nn_title_def n_slashes_def n_inline_def

lemmas splitter2_defs =
  py_index_def set_title_def needs_title_def extract_titles_from_episodes_def
  handle_special_episodes_def new_episode_def save_previous_def number_of_match_def
  start_episode_def accumulate_def regex_split_step_def multi_split_step_def split_init_def
  single_episode_def has_content_def s_plain_number_def is_specific_def specific_patterns_def
  compile_all_def multi_pattern_regex_split_def chosen_regex_def regex_split_def py_rfind_def
  rx_inline_split_def rx_break_at_end_def inline_content_def inline_split_def
  validate_split_def empty_regex_def fallback_info_def detect_pattern_def nine_tenths_def
  is_known_def finish_def process_with_def process_def
  env_down_def headers_then_body_def short_text_def one_header_def unsure_info_def
  env_unsure_def

lemmas input_defs =
  v_ko_ja_def v_ja_ko_def p6_text_def p6_expected_run_def issue_zz_def issue_warn_def
  issue_mix_def two_markers_def three_headers_def

lemmas name_consistency_defs =
  first_pass_step_def record_first_name_def foreign_pass_step_def
  set_first_part_def is_multi_part_def positional_fix_def second_pass_step_def
  korean_surnames_def katakana_dot_def middle_dot_def s_character_def arrow_note_def is_cjk_def
  term_full_def term_given_def


section \<open>Properties of the glossary\<close>

lemma find_term_total:
  "list_all (\<lambda>t. g_original t \<noteq> None) ts \<Longrightarrow> \<exists>r. find_term ts original = Inr r"
  by (induction ts) auto

lemma find_term_None:
  "find_term ts original = Inr None \<Longrightarrow> Some original \<notin> set (map g_original ts)"
  by (induction ts) (auto split: option.splits if_splits)

lemma add_term_unique:
  assumes "unique_originals (g_terms g)"
  shows "unique_originals (g_terms (apply_call g (AddTerm original tr cat fa ctx)))"
proof -
  from assms have all: "list_all (\<lambda>t. g_original t \<noteq> None) (g_terms g)"
    and dist: "distinct (map g_original (g_terms g))"
    by (simp_all add: unique_originals_def)
  from find_term_total [OF all] obtain r where r: "find_term (g_terms g) original = Inr r"
    by blast
  show ?thesis
  proof (cases r)
    case None
    with r have "Some original \<notin> set (map g_original (g_terms g))"
      using find_term_None [of "g_terms g" original] by simp
    with r None all dist show ?thesis
      by (simp add: add_term_def unique_originals_def)
  next
    case (Some t)
    with r assms show ?thesis
      by (simp add: add_term_def)
  qed
qed

lemma apply_call_unique:
  "unique_originals (g_terms g) \<Longrightarrow> create_unique c \<Longrightarrow> unique_originals (g_terms (apply_call g c))"
proof (cases c)
  case (Create series src tgt now ts)
  assume "create_unique c"
  with Create show ?thesis
    by (simp add: create_def)
next
  case (AddTerm original tr cat fa ctx)
  assume "unique_originals (g_terms g)"
  with AddTerm show ?thesis
    using add_term_unique by simp
qed

lemma run_calls_unique:
  "unique_originals (g_terms g) \<Longrightarrow> list_all create_unique cs \<Longrightarrow>
   unique_originals (g_terms (run_calls g cs))"
proof (induction cs arbitrary: g)
  case Nil
  then show ?case by simp
next
  case (Cons c cs)
  then show ?case
    by (simp add: apply_call_unique)
qed

text \<open>
  Claim C8, as amended. \<open>add_term\<close> with an original that \<open>find_term\<close> finds returns with
  the glossary unchanged. \<open>create\<close> installs the caller's term list as it is, so uniqueness
  of the originals after a sequence of calls needs every \<open>create\<close> of the sequence to be
  given terms whose originals are present and pairwise distinct (none, in particular);
  then, from the initial state, the stored originals are pairwise distinct.
\<close>

theorem add_term_existing_noop_and_unique:
  "(find_term (g_terms g) original = Inr (Some t) \<longrightarrow>
      add_term g original translation category first_appearance context = Inr g) \<and>
   (list_all create_unique cs \<longrightarrow> distinct (originals (run_calls init_glossary cs)))"
proof
  show "find_term (g_terms g) original = Inr (Some t) \<longrightarrow>
      add_term g original translation category first_appearance context = Inr g"
    by (simp add: add_term_def)
next
  have "unique_originals (g_terms init_glossary)"
    by (simp add: init_glossary_def unique_originals_def)
  then show "list_all create_unique cs \<longrightarrow> distinct (originals (run_calls init_glossary cs))"
    using run_calls_unique [of init_glossary cs]
    by (simp add: unique_originals_def originals_def)
qed

theorem add_term_existing_noop_and_unique_witness:
  "find_term (g_terms (create [0x73] [0x6B] [0x6A] [0x31] (Some [term_a]))) [0x61] = Inr (Some term_a) \<and>
   add_term (create [0x73] [0x6B] [0x6A] [0x31] (Some [term_a])) [0x61] [0x7A] [0x63] [] []
     = Inr (create [0x73] [0x6B] [0x6A] [0x31] (Some [term_a])) \<and>
   list_all create_unique
     [Create [0x73] [0x6B] [0x6A] [0x31] None, AddTerm [0x61] [0x62] [0x63] [] [],
      AddTerm [0x61] [0x7A] [0x63] [] []] \<and>
   distinct (originals (run_calls init_glossary
     [Create [0x73] [0x6B] [0x6A] [0x31] None, AddTerm [0x61] [0x62] [0x63] [] [],
      AddTerm [0x61] [0x7A] [0x63] [] []]))"
proof -
  have f: "find_term (g_terms (create [0x73] [0x6B] [0x6A] [0x31] (Some [term_a]))) [0x61]
             = Inr (Some term_a)"
    by (simp add: create_def term_a_def)
  have u: "list_all create_unique
     [Create [0x73] [0x6B] [0x6A] [0x31] None, AddTerm [0x61] [0x62] [0x63] [] [],
      AddTerm [0x61] [0x7A] [0x63] [] []]"
    by (simp add: unique_originals_def)
  show ?thesis
    using f u
      add_term_existing_noop_and_unique
        [of "create [0x73] [0x6B] [0x6A] [0x31] (Some [term_a])" "[0x61]" term_a
            "[0x7A]" "[0x63]" "[]" "[]"
            "[Create [0x73] [0x6B] [0x6A] [0x31] None, AddTerm [0x61] [0x62] [0x63] [] [],
              AddTerm [0x61] [0x7A] [0x63] [] []]"]
    by blast
qed

text \<open>
  Claim C8 as stated fails: \<open>create\<close> with an initial term list that repeats an original
  stores the repetition.
\<close>

theorem create_keeps_duplicates_counterexample:
  "\<not> distinct (originals (run_calls init_glossary
        [Create [0x73] [0x6B] [0x6A] [0x31] (Some [term_a, term_a])]))"
  by (simp add: originals_def create_def)

section \<open>Properties of the name consistency pass\<close>

lemma first_pass_step_example:
  assumes "t_category t = Some s_character \<longrightarrow> t = term_full \<or> t = term_given"
  shows "first_pass_step s_taiwanese t nm_example = nm_example"
    and "first_pass_step s_taiwanese t \<lparr>full_name_map = [], first_name_map = []\<rparr> =
           (if t = term_full then nm_example else \<lparr>full_name_map = [], first_name_map = []\<rparr>)"
proof -
  consider (n) "t_category t \<noteq> Some s_character" | (f) "t = term_full" | (g) "t = term_given"
    using assms by blast
  then have "first_pass_step s_taiwanese t nm_example = nm_example \<and>
     first_pass_step s_taiwanese t \<lparr>full_name_map = [], first_name_map = []\<rparr> =
           (if t = term_full then nm_example else \<lparr>full_name_map = [], first_name_map = []\<rparr>)"
  proof cases
    case n
    then have "t \<noteq> term_full"
      by (auto simp add: term_full_def)
    with n show ?thesis
      by (simp add: first_pass_step_def)
  next
    case f
    then show ?thesis
      by (simp add: name_consistency_defs nm_example_def name_defs Let_def)
  next
    case g
    then have "t \<noteq> term_full"
      by (simp add: term_full_def term_given_def)
    with g show ?thesis
      by (simp add: name_consistency_defs nm_example_def name_defs Let_def)
  qed
  then show "first_pass_step s_taiwanese t nm_example = nm_example"
    and "first_pass_step s_taiwanese t \<lparr>full_name_map = [], first_name_map = []\<rparr> =
           (if t = term_full then nm_example else \<lparr>full_name_map = [], first_name_map = []\<rparr>)"
    by simp_all
qed

lemma first_pass_example_fixed:
  "only_example_characters ts \<Longrightarrow> first_pass s_taiwanese ts nm_example = nm_example"
  by (induction ts) (simp_all add: only_example_characters_def first_pass_step_example)

lemma first_pass_example:
  "only_example_characters ts \<Longrightarrow> term_full \<in> set ts \<Longrightarrow>
   first_pass s_taiwanese ts \<lparr>full_name_map = [], first_name_map = []\<rparr> = nm_example"
proof (induction ts)
  case Nil
  then show ?case by simp
next
  case (Cons t ts)
  from Cons.prems(1) have h: "t_category t = Some s_character \<longrightarrow> t = term_full \<or> t = term_given"
    and r: "only_example_characters ts"
    by (simp_all add: only_example_characters_def)
  show ?case
  proof (cases "t = term_full")
    case True
    with h r show ?thesis
      by (simp add: first_pass_step_example first_pass_example_fixed)
  next
    case False
    with Cons.prems(2) have "term_full \<in> set ts" by simp
    with False h r Cons.IH show ?thesis
      by (simp add: first_pass_step_example)
  qed
qed

lemma foreign_pass_step_example:
  assumes "t_category t = Some s_character \<longrightarrow> t = term_full \<or> t = term_given"
  shows "foreign_pass_step s_taiwanese t [] = []"
proof -
  consider (n) "t_category t \<noteq> Some s_character" | (f) "t = term_full" | (g) "t = term_given"
    using assms by blast
  then show ?thesis
  proof cases
    case n
    then show ?thesis by (simp add: foreign_pass_step_def)
  next
    case f
    then show ?thesis
      by (simp add: name_consistency_defs string_defs Let_def)
  next
    case g
    then show ?thesis
      by (simp add: name_consistency_defs string_defs Let_def)
  qed
qed

lemma foreign_pass_example:
  "only_example_characters ts \<Longrightarrow> foreign_pass s_taiwanese ts [] = []"
  by (induction ts) (simp_all add: only_example_characters_def foreign_pass_step_example)

lemma given_name_not_full:
  "[0xC11C, 0xC5F0] \<notin> full_names nm_example ts"
proof -
  have "\<not> is_multi_part [0xC11C, 0xC5F0]"
    by (simp add: is_multi_part_def string_defs)
  then show ?thesis
    by (auto simp add: full_names_def nm_example_def)
qed

lemma second_pass_step_original:
  "t_original (second_pass_step fpos target_lang m fm ot fulls t) = t_original t"
proof -
  have p: "\<And>fn c orig. t_original (positional_fix fpos fn c orig t) = t_original t"
    by (simp add: positional_fix_def Let_def split: option.splits)
  have f: "\<And>fns. t_original (fix_first_name fpos target_lang ot fns t) = t_original t"
  proof -
    fix fns
    show "t_original (fix_first_name fpos target_lang ot fns t) = t_original t"
      by (induction fns) (auto simp add: Let_def p)
  qed
  show ?thesis
    by (simp add: second_pass_step_def Let_def f split: option.splits)
qed

lemma second_pass_step_given:
  assumes "t_original t = Some [0xC11C, 0xC5F0]"
  shows "t_translation (second_pass_step fpos s_taiwanese nm_example [] ot (full_names nm_example ts) t)
           = Some [0x66F8, 0x598D]"
proof (cases "t_translation t = Some [0x66F8, 0x598D]")
  case True
  with assms given_name_not_full [of ts] show ?thesis
    by (simp add: second_pass_step_def nm_example_def string_defs Let_def)
next
  case False
  then have "the_default [] (t_translation t) \<noteq> [0x66F8, 0x598D]"
    by (cases "t_translation t") simp_all
  with assms given_name_not_full [of ts] show ?thesis
    by (simp add: second_pass_step_def nm_example_def string_defs Let_def)
qed

text \<open>
  Claim C1. For the Taiwanese target, in a glossary that holds the full-name term and whose
  character terms are the full name and the given name of the example, every term returned
  with the given name U+C11C U+C5F0 as its original is translated U+66F8 U+598D, the
  given-name part of the full name's translation, whatever it was translated before.
\<close>

theorem name_consistency_given_name:
  assumes "term_full \<in> set ts"
    and "only_example_characters ts"
    and "t \<in> set (enforce_name_consistency fpos ts s_taiwanese)"
    and "t_original t = Some [0xC11C, 0xC5F0]"
  shows "t_translation t = Some [0x66F8, 0x598D]"
proof -
  have e: "enforce_name_consistency fpos ts s_taiwanese =
        map (second_pass_step fpos s_taiwanese nm_example [] (original_translations ts [])
               (full_names nm_example ts)) ts"
    using assms(1,2)
    by (simp add: enforce_name_consistency_def first_pass_example foreign_pass_example Let_def)
  from assms(3) obtain u where u: "u \<in> set ts"
    and t: "t = second_pass_step fpos s_taiwanese nm_example [] (original_translations ts [])
               (full_names nm_example ts) u"
    unfolding e by auto
  from assms(4) have "t_original u = Some [0xC11C, 0xC5F0]"
    unfolding t by (simp add: second_pass_step_original)
  then show ?thesis
    unfolding t by (rule second_pass_step_given)
qed

text \<open>The example itself: the given-name term is corrected and tagged, the full name kept.\<close>

lemma enforce_example:
  "enforce_name_consistency fpos [term_full, term_given] s_taiwanese =
   [term_full,
    term_given\<lparr>t_translation := Some [0x66F8, 0x598D], t_corrected_from := Some [0x8212, 0x598D],
               t_matched_first_name := Some [0xC11C, 0xC5F0]\<rparr>]"
  by (simp add: enforce_name_consistency_def full_names_def name_consistency_defs string_defs name_defs Let_def)

theorem name_consistency_given_name_witness:
  "term_full \<in> set [term_full, term_given] \<and>
   only_example_characters [term_full, term_given] \<and>
   term_given\<lparr>t_translation := Some [0x66F8, 0x598D], t_corrected_from := Some [0x8212, 0x598D],
               t_matched_first_name := Some [0xC11C, 0xC5F0]\<rparr>
     \<in> set (enforce_name_consistency (\<lambda>a b c. 0) [term_full, term_given] s_taiwanese) \<and>
   t_original (term_given\<lparr>t_translation := Some [0x66F8, 0x598D], t_corrected_from := Some [0x8212, 0x598D],
               t_matched_first_name := Some [0xC11C, 0xC5F0]\<rparr>) = Some [0xC11C, 0xC5F0] \<and>
   t_translation (term_given\<lparr>t_translation := Some [0x66F8, 0x598D], t_corrected_from := Some [0x8212, 0x598D],
               t_matched_first_name := Some [0xC11C, 0xC5F0]\<rparr>) = Some [0x66F8, 0x598D]"
proof -
  let ?t = "term_given\<lparr>t_translation := Some [0x66F8, 0x598D], t_corrected_from := Some [0x8212, 0x598D],
               t_matched_first_name := Some [0xC11C, 0xC5F0]\<rparr>"
  have a: "term_full \<in> set [term_full, term_given]" by simp
  have b: "only_example_characters [term_full, term_given]"
    by (simp add: only_example_characters_def)
  have c: "?t \<in> set (enforce_name_consistency (\<lambda>a b c. 0) [term_full, term_given] s_taiwanese)"
    by (simp add: enforce_example)
  have d: "t_original ?t = Some [0xC11C, 0xC5F0]"
    by (simp add: term_given_def)
  from a b c d name_consistency_given_name [OF a b c d] show ?thesis
    by (intro conjI)
qed

section \<open>Properties of the QA validator\<close>

text \<open>No key of the table of wrong variants built at construction is the empty text.\<close>

lemma dict_set_keys: "fst ` set (dict_set k v m) = insert k (fst ` set m)"
  by (induction m) auto

lemma register_variants_keys:
  "[] \<notin> fst ` set kv \<Longrightarrow> [] \<notin> fst ` set (register_variants translation variants kv)"
proof (induction variants arbitrary: kv)
  case Nil
  thus ?case by simp
next
  case (Cons variant variants)
  have "[] \<notin> fst ` set (if variant \<noteq> [] \<and> variant \<noteq> translation
                             then dict_set variant translation kv else kv)"
    using Cons.prems by (auto simp add: dict_set_keys)
  from Cons.IH [OF this] show ?case by simp
qed

lemma lookup_step_keys:
  "[] \<notin> fst ` set (lt_known_variants lt) \<Longrightarrow>
     [] \<notin> fst ` set (lt_known_variants (lookup_step t lt))"
  by (simp add: lookup_step_def Let_def register_variants_keys)

lemma build_lookup_tables_keys:
  "[] \<notin> fst ` set (lt_known_variants lt) \<Longrightarrow>
     [] \<notin> fst ` set (lt_known_variants (build_lookup_tables ts lt))"
proof (induction ts arbitrary: lt)
  case Nil
  thus ?case by simp
next
  case (Cons t ts)
  from Cons.IH [OF lookup_step_keys [OF Cons.prems]] show ?case by simp
qed

lemma known_variants_nonempty:
  "[] \<notin> fst ` set (known_variants (init_validator to_lower source_lang target_lang glossary skip))"
proof -
  have "[] \<notin> fst ` set (lt_known_variants
          (build_lookup_tables (the_default [] glossary)
             \<lparr>lt_term_map = [], lt_char_terms = [], lt_known_variants = []\<rparr>))"
    by (rule build_lookup_tables_keys) simp
  thus ?thesis by (simp add: init_validator_def Let_def)
qed

text \<open>The glossary checks report untranslated terms and glossary mismatches only.\<close>

lemma glossary_issue_types:
  "i \<in> set (check_glossary_consistency v text) \<Longrightarrow>
     i_type i = s_untranslated_term \<or> i_type i = s_glossary_mismatch"
  by (auto simp add: check_glossary_consistency_def untranslated_issues_def variant_issues_def
        similar_issues_def Let_def split: option.splits if_splits)

lemma glossary_issues_not_mixing:
  "filter (\<lambda>i. i_type i = s_language_mixing) (check_glossary_consistency v text) = []"
proof -
  have "\<forall>i \<in> set (check_glossary_consistency v text). i_type i \<noteq> s_language_mixing"
  proof
    fix i assume "i \<in> set (check_glossary_consistency v text)"
    from glossary_issue_types [OF this] show "i_type i \<noteq> s_language_mixing"
      by (auto simp add: s_glossary_mismatch_def s_language_mixing_def s_untranslated_term_def)
  qed
  thus ?thesis by (simp add: filter_empty_conv)
qed

text \<open>
  Claim C10. A validator whose source language is not the string \<open>'korean'\<close> finds no
  language mixing, whatever the text, and \<open>validate\<close> then reports no issue of type
  \<open>language_mixing\<close>, whatever the glossary and the flag.
\<close>

theorem check_language_mixing_non_korean:
  "self_source_lang v \<noteq> s_korean \<Longrightarrow>
     check_language_mixing v text = [] \<and>
     filter (\<lambda>i. i_type i = s_language_mixing) (qr_issues (validate v text ep)) = []"
  by (simp add: check_language_mixing_def validate_def Let_def glossary_issues_not_mixing)

theorem check_language_mixing_non_korean_witness:
  "self_source_lang v_ja_ko \<noteq> s_korean \<and> check_language_mixing v_ja_ko p6_text = [] \<and>
   filter (\<lambda>i. i_type i = s_language_mixing) (qr_issues (validate v_ja_ko p6_text None)) = []"
proof -
  have h: "self_source_lang v_ja_ko \<noteq> s_korean"
    by (simp add: v_ja_ko_def init_validator_def Let_def s_japanese_def s_korean_def)
  from h check_language_mixing_non_korean [OF h, of p6_text None] show ?thesis
    by simp
qed

text \<open>
  Claim C5, as amended. The pattern matches runs of Hangul syllables, and a space ends a
  run: validating the example text from Korean to Japanese fails with three
  \<open>language_mixing\<close> issues and no other, one for each Korean word, at positions 0, 3 and
  6, each of severity \<open>error\<close> (none is in the onomatopoeia list), each with the whole
  18-character text as context.
\<close>

theorem language_mixing_example_three_issues:
  "validate v_ko_ja p6_text ep =
     \<lparr>qr_passed = False,
      qr_issues =
        [\<lparr>i_type = s_language_mixing, i_severity = s_error, i_text = [0xADF8, 0xB294],
          i_message = msg_source_found [0xADF8, 0xB294], i_position = Some 0,
          i_expected = None, i_context = Some p6_text\<rparr>,
         \<lparr>i_type = s_language_mixing, i_severity = s_error, i_text = [0xC9D1, 0xC5D0],
          i_message = msg_source_found [0xC9D1, 0xC5D0], i_position = Some 3,
          i_expected = None, i_context = Some p6_text\<rparr>,
         \<lparr>i_type = s_language_mixing, i_severity = s_error,
          i_text = [0xAC14, 0xB2E4, 0xC640, 0xC11C],
          i_message = msg_source_found [0xAC14, 0xB2E4, 0xC640, 0xC11C], i_position = Some 6,
          i_expected = None, i_context = Some p6_text\<rparr>],
      qr_episode_number = ep\<rparr>"
  by (simp add: qa_defs regex_defs string_defs input_defs name_defs)

text \<open>
  Claim C5 as stated fails: the validator reports three \<open>language_mixing\<close> issues, not
  one, and no issue has the text that the claim expects.
\<close>

theorem language_mixing_example_counterexample:
  "length (filter (\<lambda>i. i_type i = s_language_mixing) (qr_issues (validate v_ko_ja p6_text None))) \<noteq> 1 \<and>
   p6_expected_run \<notin> set (map i_text (qr_issues (validate v_ko_ja p6_text None)))"
  by (simp add: qa_defs regex_defs string_defs input_defs name_defs)

subsection \<open>Accounting of auto\_fix\<close>

















section \<open>Properties of the episode splitter\<close>

subsection \<open>Direct detection\<close>









subsection \<open>Confidence\<close>

text \<open>A run of \<open>process\<close> on three headers and a body, the backend out of reach.\<close>

lemma process_headers_then_body: "process env_down headers_then_body =
   Inr \<lparr>r_episodes = [new_episode 1 [], new_episode 2 [], new_episode 3 [0x62, 0x6F, 0x64, 0x79]],
        r_is_multi_episode = True, r_method = Regex, r_total_episodes = 3, r_confidence = 85,
        r_warnings = [VeryShort 3, ContentLoss]\<rparr>"
  by (simp add: splitter2_defs splitter_defs pattern_names regex_defs string_defs Let_def)

lemma validate_split_bounds:
  "70 \<le> v_confidence (validate_split episodes pattern_info original_text) \<and>
   v_confidence (validate_split episodes pattern_info original_text) \<le> 100"
  by (simp add: validate_split_def Let_def)

lemma finish_confidence:
  "(70 \<le> r_confidence (finish text pattern_info multi method confidence episodes)) = (70 \<le> confidence)"
  "r_method (finish text pattern_info multi method confidence episodes) = method"
  using validate_split_bounds [of episodes pattern_info "text"]
  by (auto simp add: finish_def Let_def)

lemma direct_info_shape:
  assumes "detect_known_pattern_directly text = Some info"
  shows "pi_confidence info = 95 \<and> pi_is_multi_episode info = Some True"
proof -
  from assms obtain name examples re estimated inline where
    "info = direct_info name examples re estimated inline"
    by (auto simp add: detect_known_pattern_directly_def Let_def
        split: if_splits list.splits option.splits prod.splits)
  then show ?thesis
    by (simp add: direct_info_def)
qed

lemma process_with_confidence:
  assumes "process_with env text info = Inr r"
  shows "(r_method r = Single \<longrightarrow> 70 \<le> r_confidence r) \<and>
         (r_method r = Inline \<or> r_method r = Regex \<longrightarrow>
            (70 \<le> r_confidence r) = (70 \<le> pi_confidence info)) \<and>
         (r_method r = Llm \<longrightarrow> (70 \<le> r_confidence r) = (70 \<le> nine_tenths (pi_confidence info))) \<and>
         (pi_is_multi_episode info = Some True \<longrightarrow> r_method r \<noteq> Single)"
proof (cases "pi_is_multi_episode info")
  case None
  with assms show ?thesis by (simp add: process_with_def)
next
  case (Some multi)
  show ?thesis
  proof (cases multi)
    case False
    with Some assms have "r = finish text info False Single 100 (single_episode text)"
      by (simp add: process_with_def)
    with Some False show ?thesis
      by (simp add: finish_confidence)
  next
    case True
    note multi = True
    show ?thesis
    proof (cases "pi_use_inline_split info")
      case True
      with Some multi assms
      have "r = finish text info True Inline (pi_confidence info) (inline_split env text info)"
        by (simp add: process_with_def)
      then show ?thesis
        by (simp add: finish_confidence)
    next
      case False
      note noinline = False
      show ?thesis
      proof (cases "is_known (pi_primary_pattern info) \<or> is_known (pi_separator_pattern info)")
        case True
        with Some multi noinline assms obtain episodes where
          "r = finish text info True Regex (pi_confidence info) episodes"
          by (auto simp add: process_with_def split: sum.splits)
        then show ?thesis
          by (simp add: finish_confidence)
      next
        case False
        with Some multi noinline assms obtain episodes where
          "r = finish text info True Llm (nine_tenths (pi_confidence info)) episodes"
          by (auto simp add: process_with_def split: sum.splits)
        then show ?thesis
          by (simp add: finish_confidence)
      qed
    qed
  qed
qed

text \<open>
  Claim C3, as amended. The floor of 70 is applied to the confidence of the validation;
  the confidence reported is the smaller of that and the confidence of the detection. It
  is at least 70 on the single-episode path and whenever direct detection found the
  pattern; on the other paths it is at least 70 exactly when the confidence that the
  backend gave (nine tenths of it for the backend's own split) is at least 70.
\<close>

theorem final_confidence_floor:
  assumes "process env text = Inr r"
  shows "(r_method r = Single \<longrightarrow> 70 \<le> r_confidence r) \<and>
         (r_method r = Inline \<or> r_method r = Regex \<longrightarrow>
            (70 \<le> r_confidence r) = (70 \<le> pi_confidence (detect_pattern env text))) \<and>
         (r_method r = Llm \<longrightarrow>
            (70 \<le> r_confidence r) = (70 \<le> nine_tenths (pi_confidence (detect_pattern env text)))) \<and>
         (detect_known_pattern_directly text \<noteq> None \<longrightarrow> 70 \<le> r_confidence r)"
proof -
  from assms have pw: "process_with env text (detect_pattern env text) = Inr r"
    by (simp add: process_def split: if_splits)
  note c = process_with_confidence [OF pw]
  have "detect_known_pattern_directly text \<noteq> None \<longrightarrow> 70 \<le> r_confidence r"
  proof
    assume "detect_known_pattern_directly text \<noteq> None"
    then obtain info where d: "detect_known_pattern_directly text = Some info"
      by auto
    then have i: "detect_pattern env text = info"
      by (simp add: detect_pattern_def)
    from direct_info_shape [OF d] have s: "pi_confidence info = 95" "pi_is_multi_episode info = Some True"
      by simp_all
    from c s i have ns: "r_method r \<noteq> Single" by simp
    have n9: "nine_tenths 95 = 85" by (simp add: nine_tenths_def)
    show "70 \<le> r_confidence r"
    proof (cases "r_method r")
      case Single
      with ns show ?thesis by simp
    next
      case Inline
      with c i s show ?thesis by simp
    next
      case Regex
      with c i s show ?thesis by simp
    next
      case Llm
      with c i s n9 show ?thesis by simp
    qed
  qed
  with c show ?thesis by simp
qed

theorem final_confidence_floor_witness:
  "process env_down headers_then_body =
   Inr \<lparr>r_episodes = [new_episode 1 [], new_episode 2 [], new_episode 3 [0x62, 0x6F, 0x64, 0x79]],
        r_is_multi_episode = True, r_method = Regex, r_total_episodes = 3, r_confidence = 85,
        r_warnings = [VeryShort 3, ContentLoss]\<rparr> \<and>
   detect_known_pattern_directly headers_then_body \<noteq> None \<and>
   pi_confidence (detect_pattern env_down headers_then_body) = 95 \<and>
   (70::int) \<le> 85"
proof -
  have d: "detect_known_pattern_directly headers_then_body \<noteq> None"
    by (simp add: splitter2_defs splitter_defs pattern_names regex_defs string_defs Let_def)
  then obtain info where i: "detect_known_pattern_directly headers_then_body = Some info"
    by auto
  then have "pi_confidence (detect_pattern env_down headers_then_body) = 95"
    using direct_info_shape [OF i] by (simp add: detect_pattern_def)
  with d process_headers_then_body final_confidence_floor [OF process_headers_then_body] show ?thesis
    by simp
qed

text \<open>
  Claim C3 as stated fails: the backend proposes a known pattern with confidence 60, and
  60 is reported.
\<close>

theorem final_confidence_counterexample:
  "process env_unsure one_header =
   Inr \<lparr>r_episodes = [new_episode 1 [0x61, 0x62, 0x63]],
        r_is_multi_episode = True, r_method = Regex, r_total_episodes = 1, r_confidence = 60,
        r_warnings = [VeryShort 1, ContentLoss]\<rparr>"
  by (simp add: splitter2_defs splitter_defs pattern_names regex_defs string_defs Let_def)

subsection \<open>The single episode\<close>





subsection \<open>Empty episodes\<close>

text \<open>An episode without content stays so when titles are applied.\<close>

lemma set_title_empty: "e_content ep = [] \<Longrightarrow> e_content (set_title title idx ep) = []"
  by (simp add: set_title_def split_lines_def py_split_def strip_def Let_def)

lemma apply_titles_keeps_empty:
  "length (apply_titles items episodes) = length episodes \<and>
   (\<forall>k < length episodes. e_content (episodes ! k) = [] \<longrightarrow>
       e_content (apply_titles items episodes ! k) = [])"
proof (induction items arbitrary: episodes)
  case Nil
  then show ?case by simp
next
  case (Cons item items)
  show ?case
  proof (cases "\<exists>idx tl k. ti_idx item = Some idx \<and> ti_title_line_idx item = Some tl \<and>
                  truthy (ti_title item) \<and> py_index episodes idx = Some k")
    case True
    then obtain idx tl k where h: "ti_idx item = Some idx" "ti_title_line_idx item = Some tl"
      "truthy (ti_title item)" "py_index episodes idx = Some k"
      by blast
    define eps' where
      "eps' = episodes[k := set_title (the_default [] (ti_title item)) tl (episodes ! k)]"
    from h have a: "apply_titles (item # items) episodes = apply_titles items eps'"
      by (simp add: eps'_def)
    have l: "length eps' = length episodes" by (simp add: eps'_def)
    from h(4) have kl: "k < length episodes"
      by (auto simp add: py_index_def Let_def split: if_splits)
    have e: "\<forall>j < length episodes. e_content (episodes ! j) = [] \<longrightarrow> e_content (eps' ! j) = []"
    proof (intro allI impI)
      fix j assume j: "j < length episodes" and c: "e_content (episodes ! j) = []"
      show "e_content (eps' ! j) = []"
      proof (cases "j = k")
        case True
        with kl c show ?thesis
          by (simp add: eps'_def set_title_empty)
      next
        case False
        with c show ?thesis
          by (simp add: eps'_def)
      qed
    qed
    from Cons.IH [of eps'] l e show ?thesis
      unfolding a by simp
  next
    case False
    then have "apply_titles (item # items) episodes = episodes \<or>
               apply_titles (item # items) episodes = apply_titles items episodes"
      by (auto split: option.splits)
    with Cons.IH [of episodes] show ?thesis
      by auto
  qed
qed

lemma regex_split_headers_then_body:
  "regex_split env headers_then_body three_headers_info =
     Inr (extract_titles_from_episodes env
            [new_episode 1 [], new_episode 2 [], new_episode 3 [0x62, 0x6F, 0x64, 0x79]])"
  by (simp add: three_headers_info_def splitter2_defs splitter_defs pattern_names regex_defs
      string_defs Let_def)

lemma regex_split_returns_empty_episodes:
  "\<exists>episodes.
     regex_split env headers_then_body three_headers_info = Inr episodes \<and>
     length episodes = 3 \<and> e_content (episodes ! 0) = [] \<and> e_content (episodes ! 1) = []"
proof -
  define eps0 where
    "eps0 = [new_episode 1 [], new_episode 2 [], new_episode 3 [0x62, 0x6F, 0x64, 0x79]]"
  have c: "length eps0 = 3" "e_content (eps0 ! 0) = []" "e_content (eps0 ! 1) = []"
    by (simp_all add: eps0_def new_episode_def)
  have "length (extract_titles_from_episodes env eps0) = 3 \<and>
        e_content (extract_titles_from_episodes env eps0 ! 0) = [] \<and>
        e_content (extract_titles_from_episodes env eps0 ! 1) = []"
  proof (cases "\<exists>items. filter needs_title eps0 \<noteq> [] \<and> title_reply env eps0 = Some items")
    case True
    then obtain items where "extract_titles_from_episodes env eps0 = apply_titles items eps0"
      by (auto simp add: extract_titles_from_episodes_def)
    with apply_titles_keeps_empty [of items eps0] c show ?thesis
      by simp
  next
    case False
    then have "extract_titles_from_episodes env eps0 = eps0"
      by (auto simp add: extract_titles_from_episodes_def split: option.splits)
    with c show ?thesis by simp
  qed
  then show ?thesis
    using regex_split_headers_then_body [of env] unfolding eps0_def by simp
qed

lemma headers_then_body_detect:
  "detect_known_pattern_directly headers_then_body = Some three_headers_info"
  by (simp add: three_headers_info_def splitter2_defs splitter_defs pattern_names regex_defs
      string_defs Let_def)

text \<open>
  Claim C7 does not hold of the code. On three adjacent header lines followed by a body,
  direct detection selects the one pattern, \<open>_regex_split\<close> runs its single-pattern loop,
  and the result holds the first two episodes with empty content, whatever the backend
  answers to the title request: this path has no filter, unlike the multi-pattern and the
  inline path.
\<close>

theorem process_returns_empty_episodes:
  "\<exists>r. process env headers_then_body = Inr r \<and> r_method r = Regex \<and>
       length (r_episodes r) = 3 \<and>
       e_content (r_episodes r ! 0) = [] \<and> e_content (r_episodes r ! 1) = []"
proof -
  from regex_split_returns_empty_episodes [of env] obtain episodes where
    s: "regex_split env headers_then_body three_headers_info = Inr episodes"
    and e: "length episodes = 3" "e_content (episodes ! 0) = []" "e_content (episodes ! 1) = []"
    by blast
  have d: "detect_pattern env headers_then_body = three_headers_info"
    using headers_then_body_detect by (simp add: detect_pattern_def)
  have i: "pi_is_multi_episode three_headers_info = Some True"
    "\<not> pi_use_inline_split three_headers_info"
    "is_known (pi_primary_pattern three_headers_info)"
    by (simp_all add: three_headers_info_def direct_info_def is_known_def KNOWN_PATTERNS_def)
  have n: "headers_then_body \<noteq> []" by (simp add: headers_then_body_def)
  have "process env headers_then_body =
          Inr (finish headers_then_body three_headers_info True Regex
                 (pi_confidence three_headers_info) episodes)"
    using n d i s by (simp add: process_def process_with_def)
  with e show ?thesis
    by (simp add: finish_def Let_def)
qed

section \<open>Properties of the retry loop\<close>

text \<open>
  Claim C9. An iteration that starts within the budget, fixes nothing and leaves errors
  is the last one: the loop returns the state reached by that iteration, with the retry
  counter advanced by exactly one, whatever remains of \<open>max_retries\<close>.
\<close>

theorem retry_loop_stops_on_zero_fixes:
  assumes "int (retry_count st) < max_retries"
    and "pass (world st) = (r, w')"
    and "lang_fixed r = 0"
    and "lang_errors r > 0"
  shows "retry_loop pass fix_enabled max_retries st =
           \<lparr>retry_count = retry_count st + 1, lang_passed = False,
            cumulative_fixed = cumulative_fixed st, last_pass = Some r, world = w'\<rparr>"
  using assms by (subst retry_loop.simps) (simp add: Let_def)

theorem retry_loop_stops_on_zero_fixes_witness:
  "int (retry_count (retry_init (0::nat))) < 5 \<and>
   (\<lambda>w. (\<lparr>lang_errors = 2, lang_warnings = 0, lang_fixed = 0\<rparr>, Suc w)) (world (retry_init (0::nat)))
     = (\<lparr>lang_errors = 2, lang_warnings = 0, lang_fixed = 0\<rparr>, 1) \<and>
   lang_fixed \<lparr>lang_errors = 2, lang_warnings = 0, lang_fixed = 0\<rparr> = 0 \<and>
   lang_errors \<lparr>lang_errors = 2, lang_warnings = 0, lang_fixed = 0\<rparr> > 0 \<and>
   retry_count (retry_loop (\<lambda>w. (\<lparr>lang_errors = 2, lang_warnings = 0, lang_fixed = 0\<rparr>, Suc w))
      True 5 (retry_init (0::nat))) = 1"
  using retry_loop_stops_on_zero_fixes
    [of "retry_init (0::nat)" 5 "\<lambda>w. (\<lparr>lang_errors = 2, lang_warnings = 0, lang_fixed = 0\<rparr>, Suc w)"
        "\<lparr>lang_errors = 2, lang_warnings = 0, lang_fixed = 0\<rparr>" 1 True]
  by (simp add: retry_init_def)

end
